theory Spec2Isabelle
  imports Complex_Main "HOL-Library.Word"
begin

section \<open>Values, errors and the sequencing of fallible steps\<close>

text \<open>
  The values a memory record can hold. The store keeps Python objects as they are
  given to it, so a \<open>datetime\<close> stays a \<open>datetime\<close>. Dictionaries are association
  lists read with \<open>map_of\<close>; their keys are strings. A Python \<open>float\<close> is
  represented by the real number it denotes and a \<open>datetime\<close> by an integer instant:
  the program stores and returns both and computes with neither.

  The list of messages of a turn state is a mutable object: the stages append to it in
  place, and a record that is given this list holds the object itself, not a copy.
  \<open>PRef a\<close> is such a list object, the one at address \<open>a\<close> of the heap of the
  world (see agent\_nodes.py below); every other value is immutable here.
\<close>

datatype datetime = Datetime int

datatype pyval =
    PNone
  | PBool bool
  | PInt int
  | PFloat real
  | PStr string
  | PDatetime datetime
  | PList "pyval list"
  | PDict "(string \<times> pyval) list"
  | PRef nat

text \<open>Every exception of the program that a claim can meet is a value.\<close>

datatype error =
    ValidationError
  | KeyError
  | ValueError
  | TypeError
  | AttributeError
  | GraphRecursionError
  | CollaboratorError string

definition bind :: "error + 'a \<Rightarrow> ('a \<Rightarrow> error + 'b) \<Rightarrow> error + 'b" where
  "bind r f = (case r of Inl e \<Rightarrow> Inl e | Inr x \<Rightarrow> f x)"

text \<open>A list comprehension whose element expression can raise: the first raise wins.\<close>

fun map_result :: "('a \<Rightarrow> error + 'b) \<Rightarrow> 'a list \<Rightarrow> error + 'b list" where
  "map_result f [] = Inr []"
| "map_result f (x # xs) =
     (case f x of
        Inl e \<Rightarrow> Inl e
      | Inr y \<Rightarrow> (case map_result f xs of Inl e \<Rightarrow> Inl e | Inr ys \<Rightarrow> Inr (y # ys)))"

section \<open>schemas.py\<close>

record VoicePreferences =
  preferred_voice :: string
  speaking_rate :: real
  verbosity_level :: string
  interruption_handling :: string
  confirmation_required :: "string list"

record UserProfile =
  name :: "string option"
  role :: "string option"
  communication_preferences :: "(string \<times> pyval) list option"
  interests :: "string list"
  expertise :: "string list"
  voice_preferences :: VoicePreferences

record BusinessEntity =
  entity_name :: string
  entity_type :: string
  attributes :: "(string \<times> pyval) list"
  relationships :: "(string \<times> string) list list"

record ConversationContext =
  recent_topics :: "string list"
  unresolved_questions :: "string list"
  interrupted_flows :: "(string \<times> pyval) list list"
  last_interaction :: "datetime option"

text \<open>The values of the \<open>default_factory\<close> and default declarations.\<close>

definition default_VoicePreferences :: VoicePreferences where
  "default_VoicePreferences =
     \<lparr>preferred_voice = ''default'', speaking_rate = 1, verbosity_level = ''medium'',
      interruption_handling = ''pause'', confirmation_required = []\<rparr>"

definition default_ConversationContext :: ConversationContext where
  "default_ConversationContext =
     \<lparr>recent_topics = [], unresolved_questions = [], interrupted_flows = [],
      last_interaction = None\<rparr>"

subsection \<open>Validation of a stored value against a declared record shape\<close>

text \<open>
  \<open>model_validate\<close> and \<open>model_dump\<close> are inherited from the validation library's
  base class; what they do for the classes of schemas.py follows from the field
  declarations there and the library's default configuration, which none of the classes
  overrides: the input must be a dictionary, a declared field that is missing takes its
  default (a field without default is required), a present field must have the declared
  type, and keys that are not declared fields are ignored. A \<open>str\<close> field accepts only a
  string, a \<open>List\<close> field only a list, a \<open>Dict\<close> field only a dictionary. For \<open>float\<close>
  and \<open>datetime\<close> fields the library also converts some inputs of other types (numbers,
  numeric or ISO strings); these conversions are the parameters \<open>float_of\<close> and
  \<open>datetime_of\<close> of a \<open>conversions\<close> record, so that every theorem below holds
  whatever they are.
\<close>

record conversions =
  float_of :: "pyval \<Rightarrow> real option"
  datetime_of :: "pyval \<Rightarrow> datetime option"

definition validate_str :: "pyval \<Rightarrow> error + string" where
  "validate_str v = (case v of PStr s \<Rightarrow> Inr s | _ \<Rightarrow> Inl ValidationError)"

definition validate_optional :: "(pyval \<Rightarrow> error + 'a) \<Rightarrow> pyval \<Rightarrow> error + 'a option" where
  "validate_optional f v =
     (case v of PNone \<Rightarrow> Inr None | _ \<Rightarrow> bind (f v) (\<lambda>x. Inr (Some x)))"

definition validate_list :: "(pyval \<Rightarrow> error + 'a) \<Rightarrow> pyval \<Rightarrow> error + 'a list" where
  "validate_list f v = (case v of PList xs \<Rightarrow> map_result f xs | _ \<Rightarrow> Inl ValidationError)"

definition validate_dict :: "pyval \<Rightarrow> error + (string \<times> pyval) list" where
  "validate_dict v = (case v of PDict d \<Rightarrow> Inr d | _ \<Rightarrow> Inl ValidationError)"

definition validate_str_dict :: "pyval \<Rightarrow> error + (string \<times> string) list" where
  "validate_str_dict v =
     (case v of
        PDict d \<Rightarrow> map_result (\<lambda>(k, x). bind (validate_str x) (\<lambda>s. Inr (k, s))) d
      | _ \<Rightarrow> Inl ValidationError)"

definition validate_float :: "conversions \<Rightarrow> pyval \<Rightarrow> error + real" where
  "validate_float cv v =
     (case v of
        PFloat r \<Rightarrow> Inr r
      | _ \<Rightarrow> (case float_of cv v of None \<Rightarrow> Inl ValidationError | Some r \<Rightarrow> Inr r))"

definition validate_datetime :: "conversions \<Rightarrow> pyval \<Rightarrow> error + datetime" where
  "validate_datetime cv v =
     (case v of
        PDatetime d \<Rightarrow> Inr d
      | _ \<Rightarrow> (case datetime_of cv v of None \<Rightarrow> Inl ValidationError | Some d \<Rightarrow> Inr d))"

text \<open>A field with a default, and a required field.\<close>

definition field_default ::
  "(string \<times> pyval) list \<Rightarrow> string \<Rightarrow> 'a \<Rightarrow> (pyval \<Rightarrow> error + 'a) \<Rightarrow> error + 'a" where
  "field_default d k dflt f = (case map_of d k of None \<Rightarrow> Inr dflt | Some v \<Rightarrow> f v)"

definition field_required ::
  "(string \<times> pyval) list \<Rightarrow> string \<Rightarrow> (pyval \<Rightarrow> error + 'a) \<Rightarrow> error + 'a" where
  "field_required d k f = (case map_of d k of None \<Rightarrow> Inl ValidationError | Some v \<Rightarrow> f v)"

definition VoicePreferences_model_validate ::
  "conversions \<Rightarrow> pyval \<Rightarrow> error + VoicePreferences" where
  "VoicePreferences_model_validate cv v =
     (case v of
        PDict d \<Rightarrow>
          bind (field_default d ''preferred_voice'' ''default'' validate_str) (\<lambda>pv.
          bind (field_default d ''speaking_rate'' 1 (validate_float cv)) (\<lambda>sr.
          bind (field_default d ''verbosity_level'' ''medium'' validate_str) (\<lambda>vl.
          bind (field_default d ''interruption_handling'' ''pause'' validate_str) (\<lambda>ih.
          bind (field_default d ''confirmation_required'' [] (validate_list validate_str)) (\<lambda>cr.
          Inr \<lparr>preferred_voice = pv, speaking_rate = sr, verbosity_level = vl,
               interruption_handling = ih, confirmation_required = cr\<rparr>)))))
      | _ \<Rightarrow> Inl ValidationError)"

definition UserProfile_model_validate :: "conversions \<Rightarrow> pyval \<Rightarrow> error + UserProfile" where
  "UserProfile_model_validate cv v =
     (case v of
        PDict d \<Rightarrow>
          bind (field_default d ''name'' None (validate_optional validate_str)) (\<lambda>n.
          bind (field_default d ''role'' None (validate_optional validate_str)) (\<lambda>r.
          bind (field_default d ''communication_preferences'' None
                  (validate_optional validate_dict)) (\<lambda>cp.
          bind (field_default d ''interests'' [] (validate_list validate_str)) (\<lambda>i.
          bind (field_default d ''expertise'' [] (validate_list validate_str)) (\<lambda>e.
          bind (field_default d ''voice_preferences'' default_VoicePreferences
                  (VoicePreferences_model_validate cv)) (\<lambda>vp.
          Inr \<lparr>name = n, role = r, communication_preferences = cp, interests = i,
               expertise = e, voice_preferences = vp\<rparr>))))))
      | _ \<Rightarrow> Inl ValidationError)"

definition BusinessEntity_model_validate :: "pyval \<Rightarrow> error + BusinessEntity" where
  "BusinessEntity_model_validate v =
     (case v of
        PDict d \<Rightarrow>
          bind (field_required d ''name'' validate_str) (\<lambda>n.
          bind (field_required d ''entity_type'' validate_str) (\<lambda>t.
          bind (field_default d ''attributes'' [] validate_dict) (\<lambda>a.
          bind (field_default d ''relationships'' [] (validate_list validate_str_dict)) (\<lambda>r.
          Inr \<lparr>entity_name = n, entity_type = t, attributes = a, relationships = r\<rparr>))))
      | _ \<Rightarrow> Inl ValidationError)"

definition ConversationContext_model_validate ::
  "conversions \<Rightarrow> pyval \<Rightarrow> error + ConversationContext" where
  "ConversationContext_model_validate cv v =
     (case v of
        PDict d \<Rightarrow>
          bind (field_default d ''recent_topics'' [] (validate_list validate_str)) (\<lambda>rt.
          bind (field_default d ''unresolved_questions'' [] (validate_list validate_str)) (\<lambda>uq.
          bind (field_default d ''interrupted_flows'' [] (validate_list validate_dict)) (\<lambda>fl.
          bind (field_default d ''last_interaction'' None
                  (validate_optional (validate_datetime cv))) (\<lambda>li.
          Inr \<lparr>recent_topics = rt, unresolved_questions = uq, interrupted_flows = fl,
               last_interaction = li\<rparr>))))
      | _ \<Rightarrow> Inl ValidationError)"

definition ConversationContext_model_dump :: "ConversationContext \<Rightarrow> pyval" where
  "ConversationContext_model_dump c =
     PDict
       [(''recent_topics'', PList (map PStr (recent_topics c))),
        (''unresolved_questions'', PList (map PStr (unresolved_questions c))),
        (''interrupted_flows'', PList (map PDict (interrupted_flows c))),
        (''last_interaction'',
           (case last_interaction c of None \<Rightarrow> PNone | Some d \<Rightarrow> PDatetime d))]"


section \<open>config.py\<close>

definition DEFAULT_USER_ID :: string where
  "DEFAULT_USER_ID = ''default-user''"

definition MEMORY_NAMESPACE_USER_PROFILE :: string where
  "MEMORY_NAMESPACE_USER_PROFILE = ''user_profile''"

definition MEMORY_NAMESPACE_BUSINESS :: string where
  "MEMORY_NAMESPACE_BUSINESS = ''business_knowledge''"

definition MEMORY_NAMESPACE_CONVERSATION :: string where
  "MEMORY_NAMESPACE_CONVERSATION = ''conversation_history''"

definition MAX_CONVERSATION_HISTORY :: nat where
  "MAX_CONVERSATION_HISTORY = 10"

section \<open>The memory store\<close>

text \<open>
  Modelled from the spec: the store is a collaborator outside the repository, and the
  repository only calls its \<open>put\<close> and \<open>search\<close>. Its contract: \<open>put(namespace, key,
  value)\<close> upserts a record and overwrites when the key exists;
  \<open>search(namespace, query, limit, key)\<close> returns all records of the namespace,
  filtered by key equality when \<open>key\<close> is given, ranked by relevance (best first) when
  \<open>query\<close> is given, and truncated to \<open>limit\<close>; absence is an empty result.
  The relevance ranking is a parameter \<open>rank\<close>, about which nothing is assumed.
  A store is the list of its records in the order in which they were last written.
\<close>

type_synonym namespace = "string \<times> string"

type_synonym store = "((namespace \<times> string) \<times> pyval) list"

record Item =
  item_namespace :: namespace
  item_key :: string
  item_value :: pyval

definition put :: "store \<Rightarrow> namespace \<Rightarrow> string \<Rightarrow> pyval \<Rightarrow> store" where
  "put st ns k v = filter (\<lambda>e. fst e \<noteq> (ns, k)) st @ [((ns, k), v)]"

definition namespace_items :: "store \<Rightarrow> namespace \<Rightarrow> Item list" where
  "namespace_items st ns =
     map (\<lambda>e. \<lparr>item_namespace = ns, item_key = snd (fst e), item_value = snd e\<rparr>)
       (filter (\<lambda>e. fst (fst e) = ns) st)"

definition search ::
  "(string \<Rightarrow> Item list \<Rightarrow> Item list) \<Rightarrow> store \<Rightarrow> namespace \<Rightarrow>
     string option \<Rightarrow> nat option \<Rightarrow> string option \<Rightarrow> Item list" where
  "search rank st ns query limit key =
     (let recs = filter (\<lambda>it. case key of None \<Rightarrow> True | Some k \<Rightarrow> item_key it = k)
                   (namespace_items st ns);
          ranked = (case query of None \<Rightarrow> recs | Some q \<Rightarrow> rank q recs)
      in case limit of None \<Rightarrow> ranked | Some n \<Rightarrow> take n ranked)"

text \<open>Reading one record by its namespace and key.\<close>

definition lookup :: "store \<Rightarrow> namespace \<Rightarrow> string \<Rightarrow> pyval option" where
  "lookup st ns k = map_of st (ns, k)"

section \<open>Messages and identifiers\<close>

record message =
  msg_role :: string
  msg_content :: string

definition message_dict :: "message \<Rightarrow> pyval" where
  "message_dict m = PDict [(''role'', PStr (msg_role m)), (''content'', PStr (msg_content m))]"

text \<open>
  \<open>str(uuid.uuid4())\<close>: the identifier is 128 bits, printed as 32 lower-case hexadecimal
  digits in groups of 8, 4, 4, 4 and 12 separated by hyphens.
\<close>

type_synonym uuid = "128 word"

definition hex_digit :: "nat \<Rightarrow> char" where
  "hex_digit n = ''0123456789abcdef'' ! n"

definition nibble :: "uuid \<Rightarrow> nat \<Rightarrow> nat" where
  "nibble u i = unat (take_bit 4 (drop_bit (4 * i) u))"

definition hex32 :: "uuid \<Rightarrow> string" where
  "hex32 u = map (\<lambda>i. hex_digit (nibble u i)) (rev [0..<32])"

definition uuid_str :: "uuid \<Rightarrow> string" where
  "uuid_str u =
     (let h = hex32 u
      in take 8 h @ ''-'' @ take 4 (drop 8 h) @ ''-'' @ take 4 (drop 12 h) @ ''-'' @
         take 4 (drop 16 h) @ ''-'' @ drop 20 h)"

section \<open>memory\_store.py: MemoryManager\<close>

text \<open>
  The dictionary that \<open>search_memory\<close> returns has at most these three keys; a key that
  is absent from the dictionary is \<open>None\<close> here.
\<close>

record memory_results =
  user_profile :: "UserProfile list option"
  business_knowledge :: "BusinessEntity list option"
  conversation_history :: "pyval list option"

text \<open>
  The collaborators of the program that are outside the repository: the relevance
  ranking of the store and the failure of a write to it (\<open>None\<close> when the write is
  accepted), the type conversions of validation, the completion model, the two extraction
  managers (each commits writes into the store or raises), the formatting of an arbitrary
  value and of the search results inside an f-string, \<open>datetime.fromisoformat\<close> followed
  by \<open>strftime('%Y-%m-%d %H:%M')\<close>, and \<open>str.capitalize\<close> on a string that has a
  character outside ASCII.
\<close>

record collaborators =
  rank :: "string \<Rightarrow> Item list \<Rightarrow> Item list"
  put_failure :: "store \<Rightarrow> namespace \<Rightarrow> string \<Rightarrow> error option"
  conv :: conversions
  llm_invoke :: "message list \<Rightarrow> error + string"
  profile_manager_invoke :: "message list \<Rightarrow> string \<Rightarrow> store \<Rightarrow> error + store"
  business_manager_invoke :: "message list \<Rightarrow> string \<Rightarrow> store \<Rightarrow> error + store"
  format_value :: "pyval \<Rightarrow> string"
  format_results :: "memory_results \<Rightarrow> string"
  format_timestamp :: "string \<Rightarrow> error + string"
  capitalize_of :: "string \<Rightarrow> string"


definition update_user_profile ::
  "collaborators \<Rightarrow> message list \<Rightarrow> string \<Rightarrow> store \<Rightarrow> error + store" where
  "update_user_profile env messages user_id st = profile_manager_invoke env messages user_id st"

definition get_business_entities ::
  "collaborators \<Rightarrow> store \<Rightarrow> string option \<Rightarrow> string \<Rightarrow> error + BusinessEntity list" where
  "get_business_entities env st query user_id =
     (let namespace = (MEMORY_NAMESPACE_BUSINESS, user_id);
          results = (if query \<noteq> None \<and> query \<noteq> Some []
                     then search (rank env) st namespace query None None
                     else search (rank env) st namespace None None None)
      in map_result (\<lambda>item. BusinessEntity_model_validate (item_value item)) results)"

definition update_business_knowledge ::
  "collaborators \<Rightarrow> message list \<Rightarrow> string \<Rightarrow> store \<Rightarrow> error + store" where
  "update_business_knowledge env messages user_id st =
     business_manager_invoke env messages user_id st"

text \<open>
  \<open>save_conversation\<close> draws its key with \<open>uuid.uuid4()\<close> and reads the clock with
  \<open>datetime.now().isoformat()\<close>; both are arguments here. Its argument \<open>messages\<close> is
  the caller's list object, and the dictionary it stores holds that object: the record
  refers to the list at address \<open>messages\<close> and reads as whatever that list holds when the
  record is read. The write can raise a store failure, which the function does not catch.
\<close>

definition try_put ::
  "collaborators \<Rightarrow> store \<Rightarrow> namespace \<Rightarrow> string \<Rightarrow> pyval \<Rightarrow> error + store" where
  "try_put env st ns k v =
     (case put_failure env st ns k of Some e \<Rightarrow> Inl e | None \<Rightarrow> Inr (put st ns k v))"

definition save_conversation ::
  "collaborators \<Rightarrow> uuid \<Rightarrow> string \<Rightarrow> nat \<Rightarrow> string \<Rightarrow> store \<Rightarrow> error + store" where
  "save_conversation env new_uuid now messages user_id st =
     (let namespace = (MEMORY_NAMESPACE_CONVERSATION, user_id);
          conversation_id = uuid_str new_uuid
      in try_put env st namespace conversation_id
           (PDict [(''timestamp'', PStr now), (''messages'', PRef messages)]))"


text \<open>The result of the call and the store after it.\<close>

definition get_conversation_context ::
  "collaborators \<Rightarrow> store \<Rightarrow> string \<Rightarrow> (error + ConversationContext) \<times> store" where
  "get_conversation_context env st user_id =
     (let namespace = (MEMORY_NAMESPACE_CONVERSATION, user_id);
          results = search (rank env) st namespace None None (Some ''context'')
      in case results of
           r # _ \<Rightarrow> (ConversationContext_model_validate (conv env) (item_value r), st)
         | [] \<Rightarrow>
             (let context = default_ConversationContext
              in (Inr context,
                  put st namespace ''context'' (ConversationContext_model_dump context))))"

definition update_conversation_context ::
  "ConversationContext \<Rightarrow> string \<Rightarrow> store \<Rightarrow> store" where
  "update_conversation_context context user_id st =
     (let namespace = (MEMORY_NAMESPACE_CONVERSATION, user_id)
      in put st namespace ''context'' (ConversationContext_model_dump context))"

definition MemoryManager_search_memory ::
  "collaborators \<Rightarrow> store \<Rightarrow> string \<Rightarrow> string \<Rightarrow> error + memory_results" where
  "MemoryManager_search_memory env st query user_id =
     (let results = \<lparr>user_profile = Some [], business_knowledge = Some [],
                     conversation_history = Some []\<rparr>;
          profile_namespace = (MEMORY_NAMESPACE_USER_PROFILE, user_id);
          profile_results = search (rank env) st profile_namespace (Some query) (Some 1) None
      in bind (if profile_results \<noteq> []
               then bind (map_result (\<lambda>item. UserProfile_model_validate (conv env)
                                               (item_value item)) profile_results)
                      (\<lambda>ps. Inr (results\<lparr>user_profile := Some ps\<rparr>))
               else Inr results) (\<lambda>results.
         let business_namespace = (MEMORY_NAMESPACE_BUSINESS, user_id);
             business_results =
               search (rank env) st business_namespace (Some query) (Some 5) None
         in bind (if business_results \<noteq> []
                  then bind (map_result (\<lambda>item. BusinessEntity_model_validate (item_value item))
                               business_results)
                         (\<lambda>bs. Inr (results\<lparr>business_knowledge := Some bs\<rparr>))
                  else Inr results) (\<lambda>results.
            let conversation_namespace = (MEMORY_NAMESPACE_CONVERSATION, user_id);
                conversation_results =
                  search (rank env) st conversation_namespace (Some query) (Some 3) None
            in if conversation_results \<noteq> []
               then Inr (results\<lparr>conversation_history :=
                           Some (map item_value
                                   (filter (\<lambda>item. item_key item \<noteq> ''context'')
                                      conversation_results))\<rparr>)
               else Inr results)))"

section \<open>voice\_io.py\<close>

text \<open>
  A character stands for a code point below 256. \<open>is_space\<close> is the class \<open>\s\<close> of
  the regular expressions on such code points; the theorems below use of it only that
  the newline is in it and that the characters of \<open>https://link\<close> are not.
\<close>

definition newline :: char where
  "newline = CHR 0x0A"

definition is_space :: "char \<Rightarrow> bool" where
  "is_space c = ((of_char c :: nat) \<in> set [9, 10, 11, 12, 13, 28, 29, 30, 31, 32, 133, 160])"

definition starts_with :: "string \<Rightarrow> string \<Rightarrow> bool" where
  "starts_with p s = (take (length p) s = p)"

text \<open>
  Whether the pattern \<open>https?://\S+\<close> matches at the start of \<open>s\<close>. When it does, the
  greedy \<open>\S+\<close> takes every character up to the next white space, and the characters of
  the scheme are not white space themselves.
\<close>

definition url_here :: "string \<Rightarrow> bool" where
  "url_here s =
     ((starts_with ''http://'' s \<and> drop 7 s \<noteq> [] \<and> \<not> is_space (hd (drop 7 s))) \<or>
      (starts_with ''https://'' s \<and> drop 8 s \<noteq> [] \<and> \<not> is_space (hd (drop 8 s))))"

text \<open>\<open>re.sub(r'https?://\S+', 'link', text)\<close>: leftmost matches, not overlapping.\<close>

function sub_urls :: "string \<Rightarrow> string" where
  "sub_urls [] = []"
| "sub_urls (c # cs) =
     (if url_here (c # cs) then ''link'' @ sub_urls (dropWhile (\<lambda>x. \<not> is_space x) cs)
      else c # sub_urls cs)"
  by pat_completeness auto
termination
  by (relation "measure length") (auto simp: less_Suc_eq_le length_dropWhile_le)

text \<open>\<open>re.sub(r'\n\n+', '\n', text)\<close>.\<close>

function sub_newlines :: "string \<Rightarrow> string" where
  "sub_newlines [] = []"
| "sub_newlines (c # cs) =
     (if c = newline \<and> cs \<noteq> [] \<and> hd cs = newline
      then newline # sub_newlines (dropWhile (\<lambda>x. x = newline) cs)
      else c # sub_newlines cs)"
  by pat_completeness auto
termination
  by (relation "measure length") (auto simp: less_Suc_eq_le length_dropWhile_le)

text \<open>\<open>text.replace('**', '')\<close>: occurrences are found from the left, not overlapping.\<close>

fun remove_emphasis :: "string \<Rightarrow> string" where
  "remove_emphasis (a # b # cs) =
     (if a = CHR ''*'' \<and> b = CHR ''*'' then remove_emphasis cs
      else a # remove_emphasis (b # cs))"
| "remove_emphasis cs = cs"

definition optimize_for_speech :: "string \<Rightarrow> string" where
  "optimize_for_speech text = remove_emphasis (sub_newlines (sub_urls text))"

text \<open>Whether \<open>p\<close> occurs in \<open>s\<close> as a substring.\<close>

fun occurs_in :: "string \<Rightarrow> string \<Rightarrow> bool" where
  "occurs_in p [] = (p = [])"
| "occurs_in p (c # cs) = (starts_with p (c # cs) \<or> occurs_in p cs)"

text \<open>Whether \<open>s\<close> has a match of the URL pattern anywhere.\<close>

fun has_url :: "string \<Rightarrow> bool" where
  "has_url [] = False"
| "has_url (c # cs) = (url_here (c # cs) \<or> has_url cs)"

section \<open>agent\_nodes.py\<close>

text \<open>
  The state of a turn is a dictionary; a key that is absent from it is \<open>None\<close> here, and
  \<open>state.get(key, default)\<close> reads it with the default. The value under \<open>messages\<close> is
  a list object: the state holds its address, and the list itself is on the heap of the
  world.
\<close>

record AssistantState =
  messages :: "nat option"
  user_id :: "string option"
  memory_search_results :: "memory_results option"
  spoken_response :: "string option"

text \<open>
  What the program does to the world outside the state: the store, the heap of list
  objects (the address of a list is its index), the texts handed to speech synthesis and
  playback, the prompts sent to the completion model, and the messages given to the
  logger.
\<close>

record world =
  store_of :: store
  heap :: "message list list"
  tts_requests :: "string list"
  completions :: "message list list"
  log :: "string list"

text \<open>What a turn reads from outside: the transcription, the random identifier, the clock.\<close>

record turn_input =
  transcription :: string
  new_uuid :: uuid
  now :: string

definition list_at :: "world \<Rightarrow> nat \<Rightarrow> message list" where
  "list_at w a = (if a < length (heap w) then heap w ! a else [])"

text \<open>\<open>list.append\<close> on the list object at an address.\<close>

definition append_at :: "nat \<Rightarrow> message \<Rightarrow> world \<Rightarrow> world" where
  "append_at a m w = w\<lparr>heap := (heap w)[a := list_at w a @ [m]]\<rparr>"

text \<open>\<open>logger.info\<close>.\<close>

definition info :: "string \<Rightarrow> world \<Rightarrow> world" where
  "info msg w = w\<lparr>log := log w @ [msg]\<rparr>"

definition speak :: "string \<Rightarrow> world \<Rightarrow> world" where
  "speak text w =
     (if text = [] then w
      else w\<lparr>tts_requests := tts_requests w @ [remove_emphasis text]\<rparr>)"

definition get_messages :: "AssistantState \<Rightarrow> world \<Rightarrow> message list" where
  "get_messages state w = (case messages state of None \<Rightarrow> [] | Some a \<Rightarrow> list_at w a)"

definition get_user_id :: "AssistantState \<Rightarrow> string" where
  "get_user_id state = (case user_id state of None \<Rightarrow> DEFAULT_USER_ID | Some u \<Rightarrow> u)"

definition empty_results :: memory_results where
  "empty_results = \<lparr>user_profile = None, business_knowledge = None, conversation_history = None\<rparr>"

definition fallback_prompt :: string where
  "fallback_prompt = ''I didn't catch that. Could you please try again?''"

text \<open>
  When the state has no \<open>messages\<close> key, \<open>state.get("messages", [])\<close> makes a new list,
  which the returned state then holds; otherwise the list of the state is appended to in
  place.
\<close>

definition voice_input ::
  "turn_input \<Rightarrow> AssistantState \<Rightarrow> world \<Rightarrow> (error + AssistantState) \<times> world" where
  "voice_input inp state w =
     (let w0 = info ''Recording user input...'' w
      in if transcription inp = [] then (Inr state, speak fallback_prompt w0)
         else
           (let msg = \<lparr>msg_role = ''user'', msg_content = transcription inp\<rparr>
            in case messages state of
                 None \<Rightarrow>
                   (Inr (state\<lparr>messages := Some (length (heap w0))\<rparr>),
                    info (''User input: '' @ transcription inp) (w0\<lparr>heap := heap w0 @ [[msg]]\<rparr>))
               | Some a \<Rightarrow>
                   (Inr (state\<lparr>messages := Some a\<rparr>),
                    info (''User input: '' @ transcription inp) (append_at a msg w0))))"

definition search_memory ::
  "collaborators \<Rightarrow> AssistantState \<Rightarrow> world \<Rightarrow> (error + AssistantState) \<times> world" where
  "search_memory env state w =
     (let w0 = info ''Searching memory...'' w;
          user = get_user_id state;
          msgs = get_messages state w0
      in if msgs = [] then (Inr (state\<lparr>memory_search_results := Some empty_results\<rparr>), w0)
         else (case find (\<lambda>m. msg_role m = ''user'') (rev msgs) of
                 None \<Rightarrow> (Inr (state\<lparr>memory_search_results := Some empty_results\<rparr>), w0)
               | Some m \<Rightarrow>
                   if msg_content m = []
                   then (Inr (state\<lparr>memory_search_results := Some empty_results\<rparr>), w0)
                   else (case MemoryManager_search_memory env (store_of w0) (msg_content m) user of
                           Inl e \<Rightarrow> (Inl e, w0)
                         | Inr res \<Rightarrow>
                             (Inr (state\<lparr>memory_search_results := Some res\<rparr>),
                              info (''Memory search results: '' @ format_results env res) w0))))"

subsection \<open>Formatting the retrieved memory\<close>

text \<open>
  \<open>str.capitalize\<close>: the first character in title case, the others in lower case. For
  a string of ASCII characters it is given here (the first character in upper case when
  it is a letter, the other letters in lower case, any other character as it is). For a
  string with any other character the case mapping is Unicode's, which may change the
  length and look at the neighbours of a character: it is the collaborator
  \<open>capitalize_of\<close>.
\<close>

definition is_ascii :: "char \<Rightarrow> bool" where
  "is_ascii c = ((of_char c :: nat) < 128)"

definition upper_char :: "char \<Rightarrow> char" where
  "upper_char c =
     (case map_of (zip ''abcdefghijklmnopqrstuvwxyz'' ''ABCDEFGHIJKLMNOPQRSTUVWXYZ'') c of
        None \<Rightarrow> c
      | Some u \<Rightarrow> u)"

definition lower_char :: "char \<Rightarrow> char" where
  "lower_char c =
     (case map_of (zip ''ABCDEFGHIJKLMNOPQRSTUVWXYZ'' ''abcdefghijklmnopqrstuvwxyz'') c of
        None \<Rightarrow> c
      | Some l \<Rightarrow> l)"

definition capitalize :: "collaborators \<Rightarrow> string \<Rightarrow> string" where
  "capitalize env s =
     (if list_all is_ascii s
      then (case s of [] \<Rightarrow> [] | c # cs \<Rightarrow> upper_char c # map lower_char cs)
      else capitalize_of env s)"

text \<open>\<open>str.join\<close>.\<close>

fun join :: "string \<Rightarrow> string list \<Rightarrow> string" where
  "join sep [] = []"
| "join sep [x] = x"
| "join sep (x # y # ys) = x @ sep @ join sep (y # ys)"

definition format_profile :: "UserProfile \<Rightarrow> string list" where
  "format_profile profile =
     [''USER PROFILE:''] @
     (case name profile of
        Some n \<Rightarrow> if n \<noteq> [] then [''- Name: '' @ n] else []
      | None \<Rightarrow> []) @
     (case role profile of
        Some r \<Rightarrow> if r \<noteq> [] then [''- Role: '' @ r] else []
      | None \<Rightarrow> []) @
     (if interests profile \<noteq> [] then [''- Interests: '' @ join '', '' (interests profile)]
      else []) @
     (if expertise profile \<noteq> [] then [''- Expertise: '' @ join '', '' (expertise profile)]
      else [])"

definition format_entity :: "collaborators \<Rightarrow> BusinessEntity \<Rightarrow> string list" where
  "format_entity env entity =
     (''- '' @ capitalize env (entity_type entity) @ '': '' @ entity_name entity) #
     map (\<lambda>(k, v). ''  * '' @ k @ '': '' @ format_value env v) (attributes entity)"

text \<open>
  The content of a message as it is printed: \<open>len(content) > 100\<close>, then
  \<open>content[:100] + "..."\<close>. A value without length raises, and so does a list or a
  dictionary that is cut and then added to a string.
\<close>

definition content_text :: "collaborators \<Rightarrow> pyval \<Rightarrow> error + string" where
  "content_text env c =
     (case c of
        PStr s \<Rightarrow> Inr (if length s > 100 then take 100 s @ ''...'' else s)
      | PList xs \<Rightarrow> if length xs > 100 then Inl TypeError else Inr (format_value env c)
      | PDict d \<Rightarrow> if length d > 100 then Inl TypeError else Inr (format_value env c)
      | _ \<Rightarrow> Inl TypeError)"

definition format_message :: "collaborators \<Rightarrow> pyval \<Rightarrow> error + string" where
  "format_message env msg =
     (case msg of
        PDict d \<Rightarrow>
          (case map_of d ''role'' of
             None \<Rightarrow> Inl KeyError
           | Some (PStr r) \<Rightarrow>
               (case map_of d ''content'' of
                  None \<Rightarrow> Inl KeyError
                | Some c \<Rightarrow>
                    bind (content_text env c)
                      (\<lambda>t. Inr (''  * '' @ capitalize env r @ '': '' @ t)))
           | Some _ \<Rightarrow> Inl AttributeError)
      | _ \<Rightarrow> Inl TypeError)"

text \<open>
  \<open>conversation["messages"][-2:]\<close>, the elements that the loop then visits. The list
  object of a saved conversation is read on the heap as it is at that moment.
\<close>

definition last_two :: "message list list \<Rightarrow> pyval \<Rightarrow> error + pyval list" where
  "last_two h ms =
     (case ms of
        PRef a \<Rightarrow>
          (let xs = (if a < length h then h ! a else [])
           in Inr (map message_dict (drop (length xs - 2) xs)))
      | PList xs \<Rightarrow> Inr (drop (length xs - 2) xs)
      | PStr s \<Rightarrow> Inr (map (\<lambda>c. PStr [c]) (drop (length s - 2) s))
      | _ \<Rightarrow> Inl TypeError)"

definition format_conversation ::
  "collaborators \<Rightarrow> message list list \<Rightarrow> pyval \<Rightarrow> error + string list" where
  "format_conversation env h conversation =
     (case conversation of
        PDict d \<Rightarrow>
          (case map_of d ''timestamp'' of
             None \<Rightarrow> Inl KeyError
           | Some (PStr ts) \<Rightarrow>
               bind (format_timestamp env ts) (\<lambda>stamp.
               bind (case map_of d ''messages'' of
                       None \<Rightarrow> Inr []
                     | Some ms \<Rightarrow> bind (last_two h ms) (map_result (format_message env)))
                 (\<lambda>lines. Inr ((''- Date: '' @ stamp) # lines)))
           | Some _ \<Rightarrow> Inl TypeError)
      | _ \<Rightarrow> Inl TypeError)"

definition format_memory_for_prompt ::
  "collaborators \<Rightarrow> message list list \<Rightarrow> memory_results \<Rightarrow> error + string" where
  "format_memory_for_prompt env h memory =
     (let profile_lines =
            (case user_profile memory of
               Some (profile # _) \<Rightarrow> format_profile profile
             | _ \<Rightarrow> []);
          business_lines =
            (case business_knowledge memory of
               Some (e # es) \<Rightarrow>
                 (newline # ''BUSINESS KNOWLEDGE:'') # concat (map (format_entity env) (e # es))
             | _ \<Rightarrow> [])
      in bind (case conversation_history memory of
                 Some (c # cs) \<Rightarrow>
                   bind (map_result (format_conversation env h) (c # cs))
                     (\<lambda>ls. Inr ((newline # ''RELEVANT PAST CONVERSATIONS:'') # concat ls))
               | _ \<Rightarrow> Inr [])
           (\<lambda>conversation_lines.
              Inr (join [newline] (profile_lines @ business_lines @ conversation_lines))))"

subsection \<open>Generating and rendering the response\<close>

definition system_prompt :: "string \<Rightarrow> string \<Rightarrow> string" where
  "system_prompt memory_context user =
     ''You are a helpful voice assistant with access to the user's personal and business information.'' @
     [newline] @ ''        '' @ [newline] @
     ''You should use the memory context provided to personalize your responses.'' @
     [newline] @ [newline] @
     ''When responding:'' @ [newline] @
     ''1. Be concise and conversational - you are speaking, not writing'' @ [newline] @
     ''2. Use natural language and avoid complex structures'' @ [newline] @
     ''3. Reference relevant information from the user's profile or business knowledge'' @
     [newline] @
     ''4. Keep your responses short enough to be easily spoken'' @ [newline] @ [newline] @
     ''Memory context:'' @ [newline] @ memory_context @ [newline] @ [newline] @
     ''User ID: '' @ user"

text \<open>
  \<open>_update_memory\<close>: the three writes in order, with no handler around any of them. It
  is given the list object of the messages; the extraction managers read the list as it is
  then, and \<open>save_conversation\<close> stores the object. An extraction manager that raises is
  taken to leave the store as it found it.
\<close>

definition update_memory ::
  "collaborators \<Rightarrow> turn_input \<Rightarrow> nat \<Rightarrow> string \<Rightarrow> world \<Rightarrow> (error + unit) \<times> world" where
  "update_memory env inp a user w =
     (let w0 = info ''Updating memory...'' w
      in case update_user_profile env (list_at w0 a) user (store_of w0) of
           Inl e \<Rightarrow> (Inl e, w0)
         | Inr st1 \<Rightarrow>
             (case update_business_knowledge env (list_at w0 a) user st1 of
                Inl e \<Rightarrow> (Inl e, w0\<lparr>store_of := st1\<rparr>)
              | Inr st2 \<Rightarrow>
                  (case save_conversation env (new_uuid inp) (now inp) a user st2 of
                     Inl e \<Rightarrow> (Inl e, w0\<lparr>store_of := st2\<rparr>)
                   | Inr st3 \<Rightarrow> (Inr (), w0\<lparr>store_of := st3\<rparr>))))"

text \<open>
  The assistant message is appended to the list of the state in place, before the memory
  is updated: it is on the heap also when the update raises.
\<close>

definition generate_response ::
  "collaborators \<Rightarrow> turn_input \<Rightarrow> AssistantState \<Rightarrow> world \<Rightarrow> (error + AssistantState) \<times> world" where
  "generate_response env inp state w =
     (let w0 = info ''Generating response...'' w;
          user = get_user_id state;
          memory = (case memory_search_results state of None \<Rightarrow> empty_results | Some r \<Rightarrow> r)
      in case messages state of
           None \<Rightarrow> (Inr state, w0)
         | Some a \<Rightarrow>
             (let msgs = list_at w0 a
              in if msgs = [] then (Inr state, w0)
                 else
                   (case format_memory_for_prompt env (heap w0) memory of
                      Inl e \<Rightarrow> (Inl e, w0)
                    | Inr memory_context \<Rightarrow>
                        (let system_message =
                               \<lparr>msg_role = ''system'',
                                msg_content = system_prompt memory_context user\<rparr>;
                             prompt = system_message #
                                      drop (length msgs - MAX_CONVERSATION_HISTORY) msgs;
                             w1 = w0\<lparr>completions := completions w0 @ [prompt]\<rparr>
                         in case llm_invoke env prompt of
                              Inl e \<Rightarrow> (Inl e, w1)
                            | Inr response_content \<Rightarrow>
                                (let w2 = append_at a \<lparr>msg_role = ''assistant'',
                                                       msg_content = response_content\<rparr> w1;
                                     spoken = optimize_for_speech response_content;
                                     w3 = info (''Generated response: '' @
                                                take 100 response_content @ ''...'') w2
                                 in case update_memory env inp a user w3 of
                                      (Inl e, w4) \<Rightarrow> (Inl e, w4)
                                    | (Inr _, w4) \<Rightarrow>
                                        (Inr (state\<lparr>messages := Some a,
                                                   spoken_response := Some spoken\<rparr>),
                                         w4))))))"

definition voice_output :: "AssistantState \<Rightarrow> world \<Rightarrow> (error + AssistantState) \<times> world" where
  "voice_output state w =
     (let w0 = info ''Converting response to speech...'' w
      in case spoken_response state of
           Some s \<Rightarrow> if s \<noteq> [] then (Inr state, speak s w0) else (Inr state, w0)
         | None \<Rightarrow> (Inr state, w0))"

section \<open>main.py: the graph of a turn\<close>

datatype node = START | N_voice_input | N_search_memory | N_generate_response | N_voice_output | END

definition graph_edges :: "(node \<times> node) list" where
  "graph_edges =
     [(START, N_voice_input),
      (N_voice_input, N_search_memory),
      (N_search_memory, N_generate_response),
      (N_generate_response, N_voice_output),
      (N_voice_output, END)]"

definition run_node ::
  "collaborators \<Rightarrow> turn_input \<Rightarrow> node \<Rightarrow> AssistantState \<Rightarrow> world \<Rightarrow>
     (error + AssistantState) \<times> world" where
  "run_node env inp n state w =
     (case n of
        N_voice_input \<Rightarrow> voice_input inp state w
      | N_search_memory \<Rightarrow> search_memory env state w
      | N_generate_response \<Rightarrow> generate_response env inp state w
      | N_voice_output \<Rightarrow> voice_output state w
      | _ \<Rightarrow> (Inr state, w))"

text \<open>
  Running the compiled graph from a node: follow the edge out of it, run the node it leads
  to on the state the previous node returned, and stop at \<open>END\<close> or at the first node
  that raises. The number of steps is bounded by the recursion limit of the graph library.
\<close>

fun run_graph ::
  "collaborators \<Rightarrow> turn_input \<Rightarrow> nat \<Rightarrow> node \<Rightarrow> AssistantState \<Rightarrow> world \<Rightarrow>
     (error + AssistantState) \<times> world" where
  "run_graph env inp 0 n state w = (Inl GraphRecursionError, w)"
| "run_graph env inp (Suc fuel) n state w =
     (case map_of graph_edges n of
        None \<Rightarrow> (Inr state, w)
      | Some n' \<Rightarrow>
          if n' = END then (Inr state, w)
          else (case run_node env inp n' state w of
                  (Inl e, w') \<Rightarrow> (Inl e, w')
                | (Inr state', w') \<Rightarrow> run_graph env inp fuel n' state' w'))"

definition recursion_limit :: nat where
  "recursion_limit = 25"

definition invoke ::
  "collaborators \<Rightarrow> turn_input \<Rightarrow> AssistantState \<Rightarrow> world \<Rightarrow> (error + AssistantState) \<times> world" where
  "invoke env inp state w = run_graph env inp recursion_limit START state w"

section \<open>Instances for concrete examples\<close>

text \<open>
  Collaborators that rank nothing (every record of the namespace is a hit, in store
  order), accept every write, convert nothing, answer every prompt with the same text,
  extract nothing, and print the timestamp \<open>YYYY-MM-DDTHH:MM:SS\<close> as
  \<open>YYYY-MM-DD HH:MM\<close>.
\<close>

definition sample_collaborators :: collaborators where
  "sample_collaborators =
     \<lparr>rank = (\<lambda>q items. items),
      put_failure = (\<lambda>st ns k. None),
      conv = \<lparr>float_of = (\<lambda>v. None), datetime_of = (\<lambda>v. None)\<rparr>,
      llm_invoke = (\<lambda>prompt. Inr ''Hello **Aaron**''),
      profile_manager_invoke = (\<lambda>msgs user st. Inr st),
      business_manager_invoke = (\<lambda>msgs user st. Inr st),
      format_value = (\<lambda>v. []),
      format_results = (\<lambda>r. []),
      format_timestamp =
        (\<lambda>ts. if length ts < 16 then Inl ValueError
              else Inr (take 10 ts @ '' '' @ take 5 (drop 11 ts))),
      capitalize_of = (\<lambda>s. s)\<rparr>"

text \<open>The same, with a profile extraction manager that raises.\<close>

definition failing_collaborators :: collaborators where
  "failing_collaborators =
     sample_collaborators
       \<lparr>profile_manager_invoke := (\<lambda>msgs user st. Inl (CollaboratorError ''extraction failed''))\<rparr>"

text \<open>
  The world and the state a session starts with: \<open>run_assistant\<close> makes the state with
  an empty list of messages, which is the first object of the heap.
\<close>

definition initial_world :: world where
  "initial_world = \<lparr>store_of = [], heap = [[]], tts_requests = [], completions = [], log = []\<rparr>"

definition initial_state :: AssistantState where
  "initial_state =
     \<lparr>messages = Some 0, user_id = Some DEFAULT_USER_ID, memory_search_results = None,
      spoken_response = None\<rparr>"

section \<open>Lemmas about results and validation\<close>

lemma map_result_length: "map_result f xs = Inr ys \<Longrightarrow> length ys = length xs"
  by (induction xs arbitrary: ys) (auto split: sum.splits)

lemma map_result_error: "map_result f xs = Inl e \<Longrightarrow> \<exists>x\<in>set xs. f x = Inl e"
  by (induction xs) (auto split: sum.splits)

lemma map_result_total:
  "(\<forall>x\<in>set xs. \<exists>y. f x = Inr y) \<Longrightarrow> \<exists>ys. map_result f xs = Inr ys"
  by (induction xs) (auto split: sum.splits)

lemma map_result_map_PStr: "map_result validate_str (map PStr xs) = Inr xs"
  by (induction xs) (simp_all add: validate_str_def)

lemma map_result_map_PDict: "map_result validate_dict (map PDict xs) = Inr xs"
  by (induction xs) (simp_all add: validate_dict_def)

lemma context_roundtrip:
  "ConversationContext_model_validate cv (ConversationContext_model_dump c) = Inr c"
  by (cases "last_interaction c")
     (simp_all add: ConversationContext_model_validate_def ConversationContext_model_dump_def
      field_default_def bind_def validate_list_def map_result_map_PStr map_result_map_PDict
      validate_optional_def validate_datetime_def)




section \<open>Lemmas about the store\<close>

lemma search_limit: "length (search rk st ns q (Some n) k) \<le> n"
  by (simp add: search_def Let_def)

lemma search_key_put:
  "search rk (put st ns k v) ns None None (Some k)
     = [\<lparr>item_namespace = ns, item_key = k, item_value = v\<rparr>]"
proof -
  have "filter (\<lambda>e. fst (fst e) = ns \<and> snd (fst e) = k) (filter (\<lambda>e. fst e \<noteq> (ns, k)) st) = []"
    by (auto simp: filter_empty_conv prod_eq_iff)
  then show ?thesis
    by (simp add: search_def put_def namespace_items_def filter_map o_def)
qed

lemma map_of_filter_same: "map_of (filter (\<lambda>e. fst e \<noteq> y) st) y = None"
  by (induction st) auto


lemma lookup_put_same: "lookup (put st ns k v) ns k = Some v"
  by (simp add: lookup_def put_def map_add_def map_of_append map_of_filter_same)





lemma search_key_empty_iff:
  "search rk st ns None None (Some k) = [] \<longleftrightarrow> lookup st ns k = None"
proof -
  have l: "search rk st ns None None (Some k) = []
             \<longleftrightarrow> (\<forall>e\<in>set st. fst (fst e) = ns \<longrightarrow> snd (fst e) \<noteq> k)"
    by (fastforce simp: search_def namespace_items_def filter_empty_conv)
  have r: "map_of st (ns, k) = None \<longleftrightarrow> (\<forall>e\<in>set st. fst e \<noteq> (ns, k))"
    by (force simp: map_of_eq_None_iff image_iff)
  show ?thesis unfolding l lookup_def r by (auto simp: prod_eq_iff)
qed

section \<open>Lemmas about identifiers\<close>













section \<open>Lemmas about the memory manager and the stages\<close>

lemma map_result_iff: "map_result f xs = Inr ys \<longleftrightarrow> map f xs = map Inr ys"
proof (induction xs arbitrary: ys)
  case Nil
  then show ?case by auto
next
  case (Cons x xs)
  show ?case
  proof (cases ys)
    case Nil
    then show ?thesis by (auto split: sum.splits)
  next
    case (Cons y ys')
    then show ?thesis using Cons.IH[of ys'] by (auto split: sum.splits)
  qed
qed

lemma search_memory_returns_iff:
  "MemoryManager_search_memory env st q u = Inr r \<longleftrightarrow>
     (\<exists>ps bs.
        map (\<lambda>it. UserProfile_model_validate (conv env) (item_value it))
          (search (rank env) st (MEMORY_NAMESPACE_USER_PROFILE, u) (Some q) (Some 1) None)
          = map Inr ps \<and>
        map (\<lambda>it. BusinessEntity_model_validate (item_value it))
          (search (rank env) st (MEMORY_NAMESPACE_BUSINESS, u) (Some q) (Some 5) None)
          = map Inr bs \<and>
        r = \<lparr>user_profile = Some ps, business_knowledge = Some bs,
             conversation_history =
               Some (map item_value
                       (filter (\<lambda>it. item_key it \<noteq> ''context'')
                          (search (rank env) st (MEMORY_NAMESPACE_CONVERSATION, u)
                             (Some q) (Some 3) None)))\<rparr>)"
proof -
  let ?P = "search (rank env) st (MEMORY_NAMESPACE_USER_PROFILE, u) (Some q) (Some 1) None"
  let ?B = "search (rank env) st (MEMORY_NAMESPACE_BUSINESS, u) (Some q) (Some 5) None"
  let ?C = "search (rank env) st (MEMORY_NAMESPACE_CONVERSATION, u) (Some q) (Some 3) None"
  let ?vp = "\<lambda>it. UserProfile_model_validate (conv env) (item_value it)"
  let ?vb = "\<lambda>it. BusinessEntity_model_validate (item_value it)"
  have e: "MemoryManager_search_memory env st q u =
      (case map_result ?vp ?P of Inl e \<Rightarrow> Inl e
       | Inr ps \<Rightarrow> (case map_result ?vb ?B of Inl e \<Rightarrow> Inl e
          | Inr bs \<Rightarrow> Inr \<lparr>user_profile = Some ps, business_knowledge = Some bs,
               conversation_history = Some (map item_value
                       (filter (\<lambda>it. item_key it \<noteq> ''context'') ?C))\<rparr>))"
    unfolding MemoryManager_search_memory_def Let_def bind_def
    by (cases "?P = []"; cases "?B = []"; cases "?C = []") (auto split: sum.splits)
  show ?thesis unfolding e
    by (auto split: sum.splits simp: map_result_iff[symmetric])
qed

lemma map_result_Inr:
  "(\<And>x. x \<in> set xs \<Longrightarrow> f x = Inr (g x)) \<Longrightarrow> map_result f xs = Inr (map g xs)"
  by (induction xs) simp_all

lemma map_result_map: "map_result f (map h xs) = map_result (\<lambda>x. f (h x)) xs"
  by (induction xs) (simp_all split: sum.splits)



lemma save_conversation_refused:
  "put_failure env st (MEMORY_NAMESPACE_CONVERSATION, user) (uuid_str nu) = Some e \<Longrightarrow>
     save_conversation env nu t a user st = Inl e"
  by (simp add: save_conversation_def try_put_def)



lemma search_empty_store: "search rk [] ns (Some q) (Some n) None = take n (rk q [])"
  by (simp add: search_def namespace_items_def)

lemma sample_fields:
  "rank sample_collaborators q xs = xs"
  "put_failure sample_collaborators st ns k = None"
  "llm_invoke sample_collaborators p = Inr ''Hello **Aaron**''"
  "profile_manager_invoke sample_collaborators ms u st = Inr st"
  "business_manager_invoke sample_collaborators ms u st = Inr st"
  "format_results sample_collaborators r = []"
  by (simp_all add: sample_collaborators_def)

lemma failing_fields:
  "put_failure failing_collaborators st ns k = None"
  "llm_invoke failing_collaborators p = Inr ''Hello **Aaron**''"
  "profile_manager_invoke failing_collaborators ms u st
     = Inl (CollaboratorError ''extraction failed'')"
  by (simp_all add: failing_collaborators_def sample_collaborators_def)

lemma format_empty_results: "format_memory_for_prompt env h empty_results = Inr []"
  by (simp add: format_memory_for_prompt_def empty_results_def bind_def)

lemma speak_fallback:
  "speak fallback_prompt w = w\<lparr>tts_requests := tts_requests w @ [fallback_prompt]\<rparr>"
  by (simp add: speak_def fallback_prompt_def)

lemma invoke_stages:
  "invoke env inp state w =
     (case voice_input inp state w of
        (Inl e, w1) \<Rightarrow> (Inl e, w1)
      | (Inr s1, w1) \<Rightarrow>
          (case search_memory env s1 w1 of
             (Inl e, w2) \<Rightarrow> (Inl e, w2)
           | (Inr s2, w2) \<Rightarrow>
               (case generate_response env inp s2 w2 of
                  (Inl e, w3) \<Rightarrow> (Inl e, w3)
                | (Inr s3, w3) \<Rightarrow> voice_output s3 w3)))"
  by (simp add: invoke_def recursion_limit_def eval_nat_numeral graph_edges_def run_node_def
      split: prod.splits sum.splits)

lemma get_messages_info: "get_messages state (info msg w) = get_messages state w"
  by (simp add: get_messages_def info_def list_at_def split: option.splits)

lemma get_messages_tts:
  "get_messages state (w\<lparr>tts_requests := t\<rparr>) = get_messages state w"
  by (simp add: get_messages_def list_at_def split: option.splits)

lemma optimize_hello: "optimize_for_speech ''Hello **Aaron**'' = ''Hello Aaron''"
  by (simp add: optimize_for_speech_def url_here_def starts_with_def newline_def)

lemma generate_response_run:
  assumes m: "messages state = Some a" "a < length (heap w)" "heap w ! a = msgs" "msgs \<noteq> []"
    and f: "format_memory_for_prompt env (heap w)
           (case memory_search_results state of None \<Rightarrow> empty_results | Some r \<Rightarrow> r) = Inr ctx"
    and p: "prompt = \<lparr>msg_role = ''system'', msg_content = system_prompt ctx (get_user_id state)\<rparr> #
                     drop (length msgs - MAX_CONVERSATION_HISTORY) msgs"
    and l: "llm_invoke env prompt = Inr response"
    and n: "msgs' = msgs @ [\<lparr>msg_role = ''assistant'', msg_content = response\<rparr>]"
    and w4: "w4 = w\<lparr>heap := (heap w)[a := msgs'],
                     completions := completions w @ [prompt],
                     log := log w @ [''Generating response...'',
                                     ''Generated response: '' @ take 100 response @ ''...'',
                                     ''Updating memory...'']\<rparr>"
  shows "generate_response env inp state w =
     (case profile_manager_invoke env msgs' (get_user_id state) (store_of w) of
        Inl e \<Rightarrow> (Inl e, w4)
      | Inr st1 \<Rightarrow>
          (case business_manager_invoke env msgs' (get_user_id state) st1 of
             Inl e \<Rightarrow> (Inl e, w4\<lparr>store_of := st1\<rparr>)
           | Inr st2 \<Rightarrow>
               (case put_failure env st2 (MEMORY_NAMESPACE_CONVERSATION, get_user_id state)
                       (uuid_str (new_uuid inp)) of
                  Some e \<Rightarrow> (Inl e, w4\<lparr>store_of := st2\<rparr>)
                | None \<Rightarrow>
                    (Inr (state\<lparr>messages := Some a,
                               spoken_response := Some (optimize_for_speech response)\<rparr>),
                     w4\<lparr>store_of :=
                          put st2 (MEMORY_NAMESPACE_CONVERSATION, get_user_id state)
                            (uuid_str (new_uuid inp))
                            (PDict [(''timestamp'', PStr (now inp)), (''messages'', PRef a)])\<rparr>))))"
proof -
  let ?w0 = "info ''Generating response...'' w"
  let ?w1 = "?w0\<lparr>completions := completions ?w0 @ [prompt]\<rparr>"
  let ?w2 = "append_at a \<lparr>msg_role = ''assistant'', msg_content = response\<rparr> ?w1"
  let ?w3 = "info (''Generated response: '' @ take 100 response @ ''...'') ?w2"
  have l0: "list_at ?w0 a = msgs" "heap ?w0 = heap w"
    using m by (simp_all add: list_at_def info_def)
  have w3: "info ''Updating memory...'' ?w3 = w4"
    using m by (simp add: w4 n info_def append_at_def list_at_def)
  have l4: "list_at w4 a = msgs'" "store_of w4 = store_of w"
    using m by (simp_all add: w4 list_at_def)
  have u: "update_memory env inp a (get_user_id state) ?w3 =
     (case profile_manager_invoke env msgs' (get_user_id state) (store_of w) of
        Inl e \<Rightarrow> (Inl e, w4)
      | Inr st1 \<Rightarrow>
          (case business_manager_invoke env msgs' (get_user_id state) st1 of
             Inl e \<Rightarrow> (Inl e, w4\<lparr>store_of := st1\<rparr>)
           | Inr st2 \<Rightarrow>
               (case put_failure env st2 (MEMORY_NAMESPACE_CONVERSATION, get_user_id state)
                       (uuid_str (new_uuid inp)) of
                  Some e \<Rightarrow> (Inl e, w4\<lparr>store_of := st2\<rparr>)
                | None \<Rightarrow>
                    (Inr (),
                     w4\<lparr>store_of :=
                          put st2 (MEMORY_NAMESPACE_CONVERSATION, get_user_id state)
                            (uuid_str (new_uuid inp))
                            (PDict [(''timestamp'', PStr (now inp)), (''messages'', PRef a)])\<rparr>))))"
    unfolding update_memory_def Let_def w3 l4 update_user_profile_def
      update_business_knowledge_def save_conversation_def try_put_def
    by (simp split: sum.splits option.splits)
  have "generate_response env inp state w =
     (case update_memory env inp a (get_user_id state) ?w3 of
        (Inl e, w5) \<Rightarrow> (Inl e, w5)
      | (Inr _, w5) \<Rightarrow>
          (Inr (state\<lparr>messages := Some a,
                     spoken_response := Some (optimize_for_speech response)\<rparr>), w5))"
    unfolding generate_response_def Let_def
    using m f l by (simp add: l0 p[symmetric])
  then show ?thesis unfolding u by (simp split: sum.splits option.splits)
qed

lemma format_message_dict:
  "format_message env (message_dict m)
     = Inr (''  * '' @ capitalize env (msg_role m) @ '': '' @
            (if 100 < length (msg_content m) then take 100 (msg_content m) @ ''...''
             else msg_content m))"
  by (simp add: format_message_def message_dict_def content_text_def bind_def)

lemma format_saved_conversation:
  assumes "format_timestamp env ts = Inr stamp" and "a < length h"
  shows "format_conversation env h (PDict [(''timestamp'', PStr ts), (''messages'', PRef a)])
         = Inr ((''- Date: '' @ stamp) #
                map (\<lambda>m. ''  * '' @ capitalize env (msg_role m) @ '': '' @
                          (if 100 < length (msg_content m) then take 100 (msg_content m) @ ''...''
                           else msg_content m))
                  (drop (length (h ! a) - 2) (h ! a)))"
proof -
  have l: "last_two h (PRef a) = Inr (map message_dict (drop (length (h ! a) - 2) (h ! a)))"
    using assms(2) by (simp add: last_two_def Let_def)
  have r: "map_result (format_message env) (map message_dict (drop (length (h ! a) - 2) (h ! a)))
          = Inr (map (\<lambda>m. ''  * '' @ capitalize env (msg_role m) @ '': '' @
                          (if 100 < length (msg_content m) then take 100 (msg_content m) @ ''...''
                           else msg_content m)) (drop (length (h ! a) - 2) (h ! a)))"
    unfolding map_result_map by (rule map_result_Inr) (rule format_message_dict)
  show ?thesis
    by (simp add: format_conversation_def assms(1) bind_def l r)
qed

lemma format_conversations:
  assumes "\<forall>(ts, a)\<in>set saved. format_timestamp env ts = Inr (stamp ts) \<and> a < length h"
    and "saved \<noteq> []"
    and "user_profile memory = None \<or> user_profile memory = Some [] \<or>
         (\<exists>p ps. user_profile memory = Some (p # ps) \<and> format_profile p = plines)"
    and "user_profile memory = None \<or> user_profile memory = Some [] \<Longrightarrow> plines = []"
    and "business_knowledge memory = None \<or> business_knowledge memory = Some []"
    and "conversation_history memory
           = Some (map (\<lambda>(ts, a). PDict [(''timestamp'', PStr ts), (''messages'', PRef a)]) saved)"
  shows "format_memory_for_prompt env h memory
     = Inr (join [newline]
              (plines @
               (newline # ''RELEVANT PAST CONVERSATIONS:'') #
               concat (map (\<lambda>(ts, a).
                       (''- Date: '' @ stamp ts) #
                       map (\<lambda>m. ''  * '' @ capitalize env (msg_role m) @ '': '' @
                                 (if 100 < length (msg_content m)
                                  then take 100 (msg_content m) @ ''...''
                                  else msg_content m))
                         (drop (length (h ! a) - 2) (h ! a))) saved)))"
proof -
  let ?rec = "\<lambda>(ts, a). PDict [(''timestamp'', PStr ts), (''messages'', PRef a)]"
  let ?block = "\<lambda>(ts, a).
                       (''- Date: '' @ stamp ts) #
                       map (\<lambda>m. ''  * '' @ capitalize env (msg_role m) @ '': '' @
                                 (if 100 < length (msg_content m)
                                  then take 100 (msg_content m) @ ''...''
                                  else msg_content m))
                         (drop (length (h ! a) - 2) (h ! a))"
  have r: "map_result (format_conversation env h) (map ?rec saved) = Inr (map ?block saved)"
    unfolding map_result_map
  proof (rule map_result_Inr)
    fix x assume x: "x \<in> set saved"
    obtain ts a where xa: "x = (ts, a)" by (cases x)
    with x assms(1) have "format_timestamp env ts = Inr (stamp ts)" "a < length h" by auto
    then show "format_conversation env h (?rec x) = Inr (?block x)"
      unfolding xa by (simp add: format_saved_conversation)
  qed
  obtain c cs where c: "map ?rec saved = c # cs" using assms(2) by (cases saved) auto
  have p: "(case user_profile memory of Some (profile # _) \<Rightarrow> format_profile profile | _ \<Rightarrow> [])
             = plines"
    using assms(3,4) by (auto split: option.splits list.splits)
  have b: "(case business_knowledge memory of
               Some (e # es) \<Rightarrow>
                 (newline # ''BUSINESS KNOWLEDGE:'') # concat (map (format_entity env) (e # es))
             | _ \<Rightarrow> []) = []"
    using assms(5) by (auto split: option.splits list.splits)
  show ?thesis
    unfolding format_memory_for_prompt_def Let_def p b assms(6)
    using r unfolding c by (simp add: bind_def)
qed

lemma format_aaron_lines:
  "format_profile \<lparr>name = Some ''Aaron'', role = Some ''developer'', communication_preferences = cp,
               interests = [''hiking'', ''chess''], expertise = [], voice_preferences = vp\<rparr>
     = [''USER PROFILE:'', ''- Name: Aaron'', ''- Role: developer'', ''- Interests: hiking, chess'']"
  by (simp add: format_profile_def)

lemma format_aaron:
  "format_memory_for_prompt env h
     \<lparr>user_profile =
        Some [\<lparr>name = Some ''Aaron'', role = Some ''developer'', communication_preferences = cp,
               interests = [''hiking'', ''chess''], expertise = [], voice_preferences = vp\<rparr>],
      business_knowledge = Some [], conversation_history = Some []\<rparr>
   = Inr (''USER PROFILE:'' @ [newline] @ ''- Name: Aaron'' @ [newline] @
          ''- Role: developer'' @ [newline] @ ''- Interests: hiking, chess'')"
  by (simp add: format_memory_for_prompt_def format_aaron_lines bind_def)

lemma capitalize_roles:
  "capitalize env ''user'' = ''User''"
  "capitalize env ''assistant'' = ''Assistant''"
  "capitalize env ''system'' = ''System''"
  by (simp_all add: capitalize_def upper_char_def lower_char_def is_ascii_def)

section \<open>The memory manager\<close>

text \<open>
  C6. Writing a conversation context with \<open>update_conversation_context\<close> and reading
  it back with \<open>get_conversation_context\<close> for the same user returns exactly the
  context that was written, every field as it was, and the read writes nothing.
\<close>

theorem context_write_then_read:
  "get_conversation_context env (update_conversation_context c u st) u
     = (Inr c, update_conversation_context c u st)"
  by (simp add: get_conversation_context_def update_conversation_context_def search_key_put
      context_roundtrip)




text \<open>
  C5. Two calls of \<open>get_conversation_context\<close> in a row: the second returns what the
  first returned and leaves the store as the first left it, so it writes nothing. When no
  context record exists the first call returns the default context and stores its dump
  under the key \<open>context\<close>; when one exists the first call writes nothing either. After
  the first call the context record exists.
\<close>

theorem get_conversation_context_idempotent:
  "get_conversation_context env (snd (get_conversation_context env st u)) u
     = get_conversation_context env st u \<and>
   (lookup st (MEMORY_NAMESPACE_CONVERSATION, u) ''context'' = None \<longrightarrow>
      get_conversation_context env st u
        = (Inr default_ConversationContext,
           put st (MEMORY_NAMESPACE_CONVERSATION, u) ''context''
             (ConversationContext_model_dump default_ConversationContext))) \<and>
   (lookup st (MEMORY_NAMESPACE_CONVERSATION, u) ''context'' \<noteq> None \<longrightarrow>
      snd (get_conversation_context env st u) = st) \<and>
   lookup (snd (get_conversation_context env st u)) (MEMORY_NAMESPACE_CONVERSATION, u) ''context''
     \<noteq> None"
proof (cases "search (rank env) st (MEMORY_NAMESPACE_CONVERSATION, u) None None (Some ''context'')")
  case Nil
  then have n: "lookup st (MEMORY_NAMESPACE_CONVERSATION, u) ''context'' = None"
    by (simp add: search_key_empty_iff)
  have g: "get_conversation_context env st u
        = (Inr default_ConversationContext,
           put st (MEMORY_NAMESPACE_CONVERSATION, u) ''context''
             (ConversationContext_model_dump default_ConversationContext))"
    using Nil by (simp add: get_conversation_context_def)
  have "get_conversation_context env (snd (get_conversation_context env st u)) u
     = get_conversation_context env st u"
    unfolding g by (simp add: get_conversation_context_def search_key_put context_roundtrip)
  then show ?thesis using n g by (simp add: lookup_put_same)
next
  case (Cons r rs)
  then have n: "lookup st (MEMORY_NAMESPACE_CONVERSATION, u) ''context'' \<noteq> None"
    using search_key_empty_iff[of "rank env" st "(MEMORY_NAMESPACE_CONVERSATION, u)" "''context''"] by simp
  have g: "snd (get_conversation_context env st u) = st"
    using Cons by (simp add: get_conversation_context_def)
  show ?thesis using n g by auto
qed

text \<open>The theorem on the empty store and on a store that holds a context record.\<close>

theorem get_conversation_context_idempotent_witness:
  "lookup [] (MEMORY_NAMESPACE_CONVERSATION, ''u'') ''context'' = None \<and>
   get_conversation_context sample_collaborators [] ''u''
     = (Inr default_ConversationContext,
        put [] (MEMORY_NAMESPACE_CONVERSATION, ''u'') ''context''
          (ConversationContext_model_dump default_ConversationContext)) \<and>
   lookup [(((MEMORY_NAMESPACE_CONVERSATION, ''u''), ''context''), PDict [])]
     (MEMORY_NAMESPACE_CONVERSATION, ''u'') ''context'' \<noteq> None \<and>
   snd (get_conversation_context sample_collaborators
          [(((MEMORY_NAMESPACE_CONVERSATION, ''u''), ''context''), PDict [])] ''u'')
     = [(((MEMORY_NAMESPACE_CONVERSATION, ''u''), ''context''), PDict [])]"
  using get_conversation_context_idempotent[of sample_collaborators "[]" "''u''"]
    get_conversation_context_idempotent[of sample_collaborators
      "[(((MEMORY_NAMESPACE_CONVERSATION, ''u''), ''context''), PDict [])]" "''u''"]
  by (simp add: lookup_def)




text \<open>
  C3, as the code has it. \<open>search_memory\<close> of the memory manager returns exactly when
  every profile hit and every business hit validates, and then the dictionary has the three
  keys: the validated profile hits, the validated business hits, and the values of the
  conversation hits whose key is not \<open>context\<close>. So the lists have at most 1, 5 and 3
  elements, the context record is not among the conversations, and a kind without hits has
  the empty list. When a hit fails validation the call raises and returns no dictionary,
  and the error it raises is the one that validating a profile hit or a business hit
  raised.
\<close>

theorem search_memory_result_shape:
  "(\<forall>r. MemoryManager_search_memory env st q u = Inr r \<longleftrightarrow>
      (\<exists>ps bs.
         map (\<lambda>it. UserProfile_model_validate (conv env) (item_value it))
           (search (rank env) st (MEMORY_NAMESPACE_USER_PROFILE, u) (Some q) (Some 1) None)
           = map Inr ps \<and>
         map (\<lambda>it. BusinessEntity_model_validate (item_value it))
           (search (rank env) st (MEMORY_NAMESPACE_BUSINESS, u) (Some q) (Some 5) None)
           = map Inr bs \<and>
         r = \<lparr>user_profile = Some ps, business_knowledge = Some bs,
              conversation_history =
                Some (map item_value
                        (filter (\<lambda>it. item_key it \<noteq> ''context'')
                           (search (rank env) st (MEMORY_NAMESPACE_CONVERSATION, u)
                              (Some q) (Some 3) None)))\<rparr>)) \<and>
   (\<forall>r. MemoryManager_search_memory env st q u = Inr r \<longrightarrow>
      (\<exists>ps bs cs. user_profile r = Some ps \<and> business_knowledge r = Some bs \<and>
         conversation_history r = Some cs \<and>
         length ps \<le> 1 \<and> length bs \<le> 5 \<and> length cs \<le> 3 \<and>
         (\<forall>v\<in>set cs. \<exists>it\<in>set (search (rank env) st (MEMORY_NAMESPACE_CONVERSATION, u)
                                      (Some q) (Some 3) None).
            item_key it \<noteq> ''context'' \<and> item_value it = v) \<and>
         (search (rank env) st (MEMORY_NAMESPACE_USER_PROFILE, u) (Some q) (Some 1) None = []
            \<longrightarrow> ps = []) \<and>
         (search (rank env) st (MEMORY_NAMESPACE_BUSINESS, u) (Some q) (Some 5) None = []
            \<longrightarrow> bs = []) \<and>
         (search (rank env) st (MEMORY_NAMESPACE_CONVERSATION, u) (Some q) (Some 3) None = []
            \<longrightarrow> cs = []))) \<and>
   (\<forall>e. MemoryManager_search_memory env st q u = Inl e \<longrightarrow>
      (\<exists>it\<in>set (search (rank env) st (MEMORY_NAMESPACE_USER_PROFILE, u) (Some q) (Some 1) None).
         UserProfile_model_validate (conv env) (item_value it) = Inl e) \<or>
      (\<exists>it\<in>set (search (rank env) st (MEMORY_NAMESPACE_BUSINESS, u) (Some q) (Some 5) None).
         BusinessEntity_model_validate (item_value it) = Inl e)) \<and>
   ((\<exists>it\<in>set (search (rank env) st (MEMORY_NAMESPACE_USER_PROFILE, u) (Some q) (Some 1) None).
       \<exists>e. UserProfile_model_validate (conv env) (item_value it) = Inl e) \<or>
    (\<exists>it\<in>set (search (rank env) st (MEMORY_NAMESPACE_BUSINESS, u) (Some q) (Some 5) None).
       \<exists>e. BusinessEntity_model_validate (item_value it) = Inl e) \<longrightarrow>
    (\<exists>e. MemoryManager_search_memory env st q u = Inl e)) \<and>
   ((\<forall>it\<in>set (search (rank env) st (MEMORY_NAMESPACE_USER_PROFILE, u) (Some q) (Some 1) None).
       \<exists>p. UserProfile_model_validate (conv env) (item_value it) = Inr p) \<and>
    (\<forall>it\<in>set (search (rank env) st (MEMORY_NAMESPACE_BUSINESS, u) (Some q) (Some 5) None).
       \<exists>b. BusinessEntity_model_validate (item_value it) = Inr b) \<longrightarrow>
    (\<exists>r. MemoryManager_search_memory env st q u = Inr r))"
proof -
  let ?P = "search (rank env) st (MEMORY_NAMESPACE_USER_PROFILE, u) (Some q) (Some 1) None"
  let ?B = "search (rank env) st (MEMORY_NAMESPACE_BUSINESS, u) (Some q) (Some 5) None"
  let ?C = "search (rank env) st (MEMORY_NAMESPACE_CONVERSATION, u) (Some q) (Some 3) None"
  let ?vp = "\<lambda>it. UserProfile_model_validate (conv env) (item_value it)"
  let ?vb = "\<lambda>it. BusinessEntity_model_validate (item_value it)"
  let ?M = "MemoryManager_search_memory env st q u"
  have lp: "length ?P \<le> 1" and lb: "length ?B \<le> 5" and lc: "length ?C \<le> 3"
    by (rule search_limit)+
  have lf: "length (filter (\<lambda>item. item_key item \<noteq> ''context'') ?C) \<le> 3"
    using lc le_trans[OF length_filter_le] by blast
  have exact: "\<forall>r. ?M = Inr r \<longleftrightarrow>
      (\<exists>ps bs. map ?vp ?P = map Inr ps \<and> map ?vb ?B = map Inr bs \<and>
         r = \<lparr>user_profile = Some ps, business_knowledge = Some bs,
              conversation_history =
                Some (map item_value (filter (\<lambda>it. item_key it \<noteq> ''context'') ?C))\<rparr>)"
    using search_memory_returns_iff by blast
  have shape: "\<forall>r. ?M = Inr r \<longrightarrow>
      (\<exists>ps bs cs. user_profile r = Some ps \<and> business_knowledge r = Some bs \<and>
         conversation_history r = Some cs \<and>
         length ps \<le> 1 \<and> length bs \<le> 5 \<and> length cs \<le> 3 \<and>
         (\<forall>v\<in>set cs. \<exists>it\<in>set ?C. item_key it \<noteq> ''context'' \<and> item_value it = v) \<and>
         (?P = [] \<longrightarrow> ps = []) \<and> (?B = [] \<longrightarrow> bs = []) \<and> (?C = [] \<longrightarrow> cs = []))"
  proof (intro allI impI)
    fix r assume "?M = Inr r"
    then obtain ps bs where ps: "map ?vp ?P = map Inr ps" and bs: "map ?vb ?B = map Inr bs"
      and r: "r = \<lparr>user_profile = Some ps, business_knowledge = Some bs,
              conversation_history =
                Some (map item_value (filter (\<lambda>it. item_key it \<noteq> ''context'') ?C))\<rparr>"
      using exact by blast
    have "length ps = length ?P" "length bs = length ?B"
      using ps bs by (metis length_map)+
    then have "length ps \<le> 1" "length bs \<le> 5" "?P = [] \<longrightarrow> ps = []" "?B = [] \<longrightarrow> bs = []"
      using lp lb by auto
    then show "\<exists>ps bs cs. user_profile r = Some ps \<and> business_knowledge r = Some bs \<and>
         conversation_history r = Some cs \<and>
         length ps \<le> 1 \<and> length bs \<le> 5 \<and> length cs \<le> 3 \<and>
         (\<forall>v\<in>set cs. \<exists>it\<in>set ?C. item_key it \<noteq> ''context'' \<and> item_value it = v) \<and>
         (?P = [] \<longrightarrow> ps = []) \<and> (?B = [] \<longrightarrow> bs = []) \<and> (?C = [] \<longrightarrow> cs = [])"
      using lf unfolding r by auto
  qed
  have tot: "(\<forall>it\<in>set ?P. \<exists>p. ?vp it = Inr p) \<and> (\<forall>it\<in>set ?B. \<exists>b. ?vb it = Inr b) \<longrightarrow>
    (\<exists>r. ?M = Inr r)"
  proof
    assume a: "(\<forall>it\<in>set ?P. \<exists>p. ?vp it = Inr p) \<and> (\<forall>it\<in>set ?B. \<exists>b. ?vb it = Inr b)"
    obtain ps where ps: "map_result ?vp ?P = Inr ps"
      using a map_result_total[of ?P ?vp] by blast
    obtain bs where bs: "map_result ?vb ?B = Inr bs"
      using a map_result_total[of ?B ?vb] by blast
    show "\<exists>r. ?M = Inr r"
      using ps bs exact unfolding map_result_iff by blast
  qed
  have err: "\<forall>e. ?M = Inl e \<longrightarrow>
      (\<exists>it\<in>set ?P. ?vp it = Inl e) \<or> (\<exists>it\<in>set ?B. ?vb it = Inl e)"
  proof (intro allI impI)
    fix e assume a: "?M = Inl e"
    then have "map_result ?vp ?P = Inl e \<or> map_result ?vb ?B = Inl e"
      unfolding MemoryManager_search_memory_def Let_def bind_def
      by (auto split: sum.splits if_splits)
    then show "(\<exists>it\<in>set ?P. ?vp it = Inl e) \<or> (\<exists>it\<in>set ?B. ?vb it = Inl e)"
      using map_result_error[of ?vp ?P e] map_result_error[of ?vb ?B e] by blast
  qed
  have fail: "(\<exists>it\<in>set ?P. \<exists>e. ?vp it = Inl e) \<or> (\<exists>it\<in>set ?B. \<exists>e. ?vb it = Inl e) \<longrightarrow>
    (\<exists>e. ?M = Inl e)"
  proof
    assume a: "(\<exists>it\<in>set ?P. \<exists>e. ?vp it = Inl e) \<or> (\<exists>it\<in>set ?B. \<exists>e. ?vb it = Inl e)"
    have "\<not> (\<exists>r. ?M = Inr r)"
    proof
      assume "\<exists>r. ?M = Inr r"
      then obtain ps bs where ps: "map ?vp ?P = map Inr ps" and bs: "map ?vb ?B = map Inr bs"
        using exact by blast
      have "\<forall>it\<in>set ?P. \<exists>p. ?vp it = Inr p"
        using ps by (metis (no_types, lifting) imageE image_eqI list.set_map)
      moreover have "\<forall>it\<in>set ?B. \<exists>b. ?vb it = Inr b"
        using bs by (metis (no_types, lifting) imageE image_eqI list.set_map)
      ultimately show False using a by fastforce
    qed
    then show "\<exists>e. ?M = Inl e" by (cases ?M) auto
  qed
  show ?thesis using exact shape err fail tot by blast
qed

text \<open>
  The theorem on a store with a profile record and a context record, where the call
  returns, and on a store with a business record without \<open>name\<close>, where it raises.
\<close>

theorem search_memory_result_shape_witness:
  "MemoryManager_search_memory sample_collaborators
     [(((MEMORY_NAMESPACE_USER_PROFILE, ''u''), ''p''), PDict [(''name'', PStr ''Aaron'')]),
      (((MEMORY_NAMESPACE_CONVERSATION, ''u''), ''context''), PDict [])]
     ''Aaron'' ''u''
   = Inr \<lparr>user_profile =
            Some [\<lparr>name = Some ''Aaron'', role = None, communication_preferences = None,
                   interests = [], expertise = [],
                   voice_preferences = default_VoicePreferences\<rparr>],
          business_knowledge = Some [], conversation_history = Some []\<rparr> \<and>
   (\<exists>ps bs cs.
      Some [\<lparr>name = Some ''Aaron'', role = None, communication_preferences = None,
             interests = [], expertise = [],
             voice_preferences = default_VoicePreferences\<rparr>] = Some ps \<and>
      Some ([] :: BusinessEntity list) = Some bs \<and> Some ([] :: pyval list) = Some cs \<and>
      length ps \<le> 1 \<and> length bs \<le> 5 \<and> length cs \<le> 3) \<and>
   BusinessEntity_model_validate (PDict [(''entity_type'', PStr ''project'')])
     = Inl ValidationError \<and>
   (\<exists>e. MemoryManager_search_memory sample_collaborators
           [(((MEMORY_NAMESPACE_BUSINESS, ''u''), ''e1''),
             PDict [(''entity_type'', PStr ''project'')])]
           ''project'' ''u'' = Inl e)"
proof -
  let ?st = "[(((MEMORY_NAMESPACE_USER_PROFILE, ''u''), ''p''), PDict [(''name'', PStr ''Aaron'')]),
      (((MEMORY_NAMESPACE_CONVERSATION, ''u''), ''context''), PDict [])]"
  let ?bad = "[(((MEMORY_NAMESPACE_BUSINESS, ''u''), ''e1''),
             PDict [(''entity_type'', PStr ''project'')])]"
  have h: "MemoryManager_search_memory sample_collaborators ?st ''Aaron'' ''u''
   = Inr \<lparr>user_profile =
            Some [\<lparr>name = Some ''Aaron'', role = None, communication_preferences = None,
                   interests = [], expertise = [],
                   voice_preferences = default_VoicePreferences\<rparr>],
          business_knowledge = Some [], conversation_history = Some []\<rparr>"
    by (simp add: MemoryManager_search_memory_def search_def namespace_items_def
      sample_collaborators_def MEMORY_NAMESPACE_USER_PROFILE_def MEMORY_NAMESPACE_BUSINESS_def
      MEMORY_NAMESPACE_CONVERSATION_def UserProfile_model_validate_def field_default_def
      bind_def validate_optional_def validate_str_def)
  have a: "\<exists>ps bs cs.
      Some [\<lparr>name = Some ''Aaron'', role = None, communication_preferences = None,
             interests = [], expertise = [],
             voice_preferences = default_VoicePreferences\<rparr>] = Some ps \<and>
      Some ([] :: BusinessEntity list) = Some bs \<and> Some ([] :: pyval list) = Some cs \<and>
      length ps \<le> 1 \<and> length bs \<le> 5 \<and> length cs \<le> 3"
    using search_memory_result_shape[of sample_collaborators ?st "''Aaron''" "''u''",
        THEN conjunct2, THEN conjunct1] h
    by simp
  have v: "BusinessEntity_model_validate (PDict [(''entity_type'', PStr ''project'')])
     = Inl ValidationError"
    by (simp add: BusinessEntity_model_validate_def field_required_def bind_def)
  have s: "search (rank sample_collaborators) ?bad (MEMORY_NAMESPACE_BUSINESS, ''u'')
             (Some ''project'') (Some 5) None
           = [\<lparr>item_namespace = (MEMORY_NAMESPACE_BUSINESS, ''u''), item_key = ''e1'',
               item_value = PDict [(''entity_type'', PStr ''project'')]\<rparr>]"
    by (simp add: search_def namespace_items_def sample_collaborators_def)
  have b: "\<exists>e. MemoryManager_search_memory sample_collaborators ?bad ''project'' ''u'' = Inl e"
    using search_memory_result_shape[of sample_collaborators ?bad "''project''" "''u''",
        THEN conjunct2, THEN conjunct2, THEN conjunct2, THEN conjunct1] s v
    by simp
  show ?thesis using h a v b by blast
qed

text \<open>
  C3 as stated fails: with a business record that lacks the required \<open>name\<close> among the
  hits, the call raises and returns no dictionary.
\<close>

theorem search_memory_raises:
  "MemoryManager_search_memory sample_collaborators
     [(((''business_knowledge'', ''default-user''), ''e1''),
       PDict [(''entity_type'', PStr ''project'')])]
     ''project'' ''default-user''
   = Inl ValidationError"
  by (simp add: MemoryManager_search_memory_def search_def namespace_items_def
      sample_collaborators_def MEMORY_NAMESPACE_USER_PROFILE_def MEMORY_NAMESPACE_BUSINESS_def
      MEMORY_NAMESPACE_CONVERSATION_def BusinessEntity_model_validate_def field_required_def
      bind_def)

section \<open>The stages of a turn\<close>

text \<open>
  C4, as the code has it. On a state without messages the retrieve stage returns without
  error and without reading the store (it only logs that it searches), and the
  memory-search result it sets is the empty dictionary: none of the three kinds has an
  entry. The formatter reads an absent kind as no hits and gives the empty context.
\<close>

theorem search_memory_no_messages:
  assumes "get_messages state w = []"
  shows "search_memory env state w
           = (Inr (state\<lparr>memory_search_results := Some empty_results\<rparr>),
              w\<lparr>log := log w @ [''Searching memory...'']\<rparr>) \<and>
         user_profile empty_results = None \<and> business_knowledge empty_results = None \<and>
         conversation_history empty_results = None \<and>
         format_memory_for_prompt env h empty_results = Inr []"
proof -
  have "search_memory env state w
           = (Inr (state\<lparr>memory_search_results := Some empty_results\<rparr>),
              w\<lparr>log := log w @ [''Searching memory...'']\<rparr>)"
    using assms by (simp add: search_memory_def Let_def get_messages_info) (simp add: info_def)
  then show ?thesis by (simp add: format_empty_results) (simp add: empty_results_def)
qed

text \<open>
  The theorem on the state a session starts with.
\<close>

theorem search_memory_no_messages_witness:
  "get_messages initial_state initial_world = [] \<and>
   search_memory sample_collaborators initial_state initial_world
     = (Inr (initial_state\<lparr>memory_search_results := Some empty_results\<rparr>),
        initial_world\<lparr>log := [''Searching memory...'']\<rparr>)"
proof -
  have h: "get_messages initial_state initial_world = []"
    by (simp add: get_messages_def initial_state_def initial_world_def list_at_def)
  have l: "log initial_world = []" by (simp add: initial_world_def)
  show ?thesis
    using search_memory_no_messages[OF h, of sample_collaborators, THEN conjunct1] h l by simp
qed

text \<open>
  C4 as stated fails: on the state a session starts with, the result holds no list for
  any of the three kinds, where the claim has three empty lists.
\<close>

theorem search_memory_entries_absent:
  "fst (search_memory sample_collaborators initial_state initial_world)
     = Inr \<lparr>messages = Some 0, user_id = Some ''default-user'',
            memory_search_results =
              Some \<lparr>user_profile = None, business_knowledge = None,
                    conversation_history = None\<rparr>,
            spoken_response = None\<rparr>"
  by (simp add: search_memory_def initial_state_def initial_world_def get_messages_def
      empty_results_def DEFAULT_USER_ID_def list_at_def info_def)

text \<open>
  C8. The profile of Aaron, a developer interested in hiking and chess, is formatted as
  the four lines of the specification joined by newlines. For saved conversations, as
  \<open>save_conversation\<close> stores them, whose timestamps format, the formatter gives (after
  the profile block when there is one) the header of the past conversations and then, for
  each conversation, its date line followed by one line for each of its last two messages
  (all of them when there are fewer): the role capitalized, and the content, cut to its
  first 100 characters and followed by three dots when it is longer than 100. The roles
  \<open>user\<close>, \<open>assistant\<close> and \<open>system\<close> are capitalized as \<open>User\<close>,
  \<open>Assistant\<close> and \<open>System\<close>. For a conversation of one assistant message of 150
  characters the formatter prints 100 characters and the dots.
\<close>

theorem format_memory_blocks:
  assumes "\<forall>(ts, a)\<in>set saved. format_timestamp env ts = Inr (stamp ts) \<and> a < length h"
    and "saved \<noteq> []"
  shows
    "format_memory_for_prompt env h
       \<lparr>user_profile =
          Some [\<lparr>name = Some ''Aaron'', role = Some ''developer'', communication_preferences = cp,
                 interests = [''hiking'', ''chess''], expertise = [], voice_preferences = vp\<rparr>],
        business_knowledge = Some [], conversation_history = Some []\<rparr>
     = Inr (''USER PROFILE:'' @ [newline] @ ''- Name: Aaron'' @ [newline] @
            ''- Role: developer'' @ [newline] @ ''- Interests: hiking, chess'') \<and>
     format_memory_for_prompt env h
       \<lparr>user_profile =
          Some [\<lparr>name = Some ''Aaron'', role = Some ''developer'', communication_preferences = cp,
                 interests = [''hiking'', ''chess''], expertise = [], voice_preferences = vp\<rparr>],
        business_knowledge = Some [],
        conversation_history =
          Some (map (\<lambda>(ts, a). PDict [(''timestamp'', PStr ts), (''messages'', PRef a)]) saved)\<rparr>
     = Inr (join [newline]
              ([''USER PROFILE:'', ''- Name: Aaron'', ''- Role: developer'',
                ''- Interests: hiking, chess''] @
               (newline # ''RELEVANT PAST CONVERSATIONS:'') #
               concat (map (\<lambda>(ts, a).
                       (''- Date: '' @ stamp ts) #
                       map (\<lambda>m. ''  * '' @ capitalize env (msg_role m) @ '': '' @
                                 (if 100 < length (msg_content m)
                                  then take 100 (msg_content m) @ ''...''
                                  else msg_content m))
                         (drop (length (h ! a) - 2) (h ! a))) saved))) \<and>
     format_memory_for_prompt env h
       \<lparr>user_profile = Some [], business_knowledge = Some [],
        conversation_history =
          Some (map (\<lambda>(ts, a). PDict [(''timestamp'', PStr ts), (''messages'', PRef a)]) saved)\<rparr>
     = Inr (join [newline]
              ((newline # ''RELEVANT PAST CONVERSATIONS:'') #
               concat (map (\<lambda>(ts, a).
                       (''- Date: '' @ stamp ts) #
                       map (\<lambda>m. ''  * '' @ capitalize env (msg_role m) @ '': '' @
                                 (if 100 < length (msg_content m)
                                  then take 100 (msg_content m) @ ''...''
                                  else msg_content m))
                         (drop (length (h ! a) - 2) (h ! a))) saved))) \<and>
     (\<forall>(ts, a)\<in>set saved. length (drop (length (h ! a) - 2) (h ! a)) \<le> 2) \<and>
     capitalize env ''user'' = ''User'' \<and> capitalize env ''assistant'' = ''Assistant'' \<and>
     capitalize env ''system'' = ''System'' \<and>
     (\<forall>c. saved = [(ts0, a0)] \<and> h ! a0 = [\<lparr>msg_role = ''assistant'', msg_content = c\<rparr>] \<and>
          length c = 150 \<longrightarrow>
        format_memory_for_prompt env h
          \<lparr>user_profile = Some [], business_knowledge = Some [],
           conversation_history =
             Some [PDict [(''timestamp'', PStr ts0), (''messages'', PRef a0)]]\<rparr>
        = Inr ((newline # ''RELEVANT PAST CONVERSATIONS:'') @ [newline] @
               ''- Date: '' @ stamp ts0 @ [newline] @
               ''  * Assistant: '' @ take 100 c @ ''...'') \<and>
        length (take 100 c @ ''...'') = 103)"
proof -
  let ?aaron = "\<lparr>name = Some ''Aaron'', role = Some ''developer'', communication_preferences = cp,
                 interests = [''hiking'', ''chess''], expertise = [], voice_preferences = vp\<rparr>"
  let ?convs = "map (\<lambda>(ts, a). PDict [(''timestamp'', PStr ts), (''messages'', PRef a)]) saved"
  have 1: "format_memory_for_prompt env h
       \<lparr>user_profile = Some [?aaron], business_knowledge = Some [],
        conversation_history = Some []\<rparr>
     = Inr (''USER PROFILE:'' @ [newline] @ ''- Name: Aaron'' @ [newline] @
            ''- Role: developer'' @ [newline] @ ''- Interests: hiking, chess'')"
    by (rule format_aaron)
  have 2: "format_memory_for_prompt env h
       \<lparr>user_profile = Some [?aaron], business_knowledge = Some [],
        conversation_history = Some ?convs\<rparr>
     = Inr (join [newline]
              ([''USER PROFILE:'', ''- Name: Aaron'', ''- Role: developer'',
                ''- Interests: hiking, chess''] @
               (newline # ''RELEVANT PAST CONVERSATIONS:'') #
               concat (map (\<lambda>(ts, a).
                       (''- Date: '' @ stamp ts) #
                       map (\<lambda>m. ''  * '' @ capitalize env (msg_role m) @ '': '' @
                                 (if 100 < length (msg_content m)
                                  then take 100 (msg_content m) @ ''...''
                                  else msg_content m))
                         (drop (length (h ! a) - 2) (h ! a))) saved)))"
    by (rule format_conversations[OF assms]) (simp_all add: format_aaron_lines)
  have 3: "format_memory_for_prompt env h
       \<lparr>user_profile = Some [], business_knowledge = Some [],
        conversation_history = Some ?convs\<rparr>
     = Inr (join [newline]
              ((newline # ''RELEVANT PAST CONVERSATIONS:'') #
               concat (map (\<lambda>(ts, a).
                       (''- Date: '' @ stamp ts) #
                       map (\<lambda>m. ''  * '' @ capitalize env (msg_role m) @ '': '' @
                                 (if 100 < length (msg_content m)
                                  then take 100 (msg_content m) @ ''...''
                                  else msg_content m))
                         (drop (length (h ! a) - 2) (h ! a))) saved)))"
    using format_conversations[OF assms, where plines = "[]" and memory = "\<lparr>user_profile = Some [], business_knowledge = Some [],
        conversation_history = Some ?convs\<rparr>"] by simp
  have 4: "\<forall>(ts, a)\<in>set saved. length (drop (length (h ! a) - 2) (h ! a)) \<le> 2"
    by auto
  have 5: "\<forall>c. saved = [(ts0, a0)] \<and> h ! a0 = [\<lparr>msg_role = ''assistant'', msg_content = c\<rparr>] \<and>
          length c = 150 \<longrightarrow>
        format_memory_for_prompt env h
          \<lparr>user_profile = Some [], business_knowledge = Some [],
           conversation_history =
             Some [PDict [(''timestamp'', PStr ts0), (''messages'', PRef a0)]]\<rparr>
        = Inr ((newline # ''RELEVANT PAST CONVERSATIONS:'') @ [newline] @
               ''- Date: '' @ stamp ts0 @ [newline] @
               ''  * Assistant: '' @ take 100 c @ ''...'') \<and>
        length (take 100 c @ ''...'') = 103"
  proof (intro allI impI, elim conjE)
    fix c
    assume s: "saved = [(ts0, a0)]"
      and hc: "h ! a0 = [\<lparr>msg_role = ''assistant'', msg_content = c\<rparr>]"
      and l: "length c = 150"
    show "format_memory_for_prompt env h
          \<lparr>user_profile = Some [], business_knowledge = Some [],
           conversation_history =
             Some [PDict [(''timestamp'', PStr ts0), (''messages'', PRef a0)]]\<rparr>
        = Inr ((newline # ''RELEVANT PAST CONVERSATIONS:'') @ [newline] @
               ''- Date: '' @ stamp ts0 @ [newline] @
               ''  * Assistant: '' @ take 100 c @ ''...'') \<and>
        length (take 100 c @ ''...'') = 103"
      using 3 l unfolding s by (simp add: hc capitalize_roles)
  qed
  show ?thesis
    using 1 2 3 4 5 capitalize_roles by blast
qed

text \<open>
  The theorem on two saved conversations, one of three messages and one of an assistant
  message of 150 characters.
\<close>

theorem format_memory_blocks_witness:
  "format_timestamp sample_collaborators ''2024-01-01T10:00:00'' = Inr ''2024-01-01 10:00'' \<and>
   format_timestamp sample_collaborators ''2024-01-02T09:30:00'' = Inr ''2024-01-02 09:30'' \<and>
   length (replicate 150 (CHR ''x'')) = 150 \<and>
   format_memory_for_prompt sample_collaborators
       [[\<lparr>msg_role = ''user'', msg_content = ''one''\<rparr>,
         \<lparr>msg_role = ''assistant'', msg_content = ''two''\<rparr>,
         \<lparr>msg_role = ''user'', msg_content = ''three''\<rparr>],
        [\<lparr>msg_role = ''assistant'', msg_content = replicate 150 (CHR ''x'')\<rparr>]]
       \<lparr>user_profile = Some [], business_knowledge = Some [],
        conversation_history =
          Some [PDict [(''timestamp'', PStr ''2024-01-01T10:00:00''), (''messages'', PRef 0)],
                PDict [(''timestamp'', PStr ''2024-01-02T09:30:00''), (''messages'', PRef 1)]]\<rparr>
     = Inr ((newline # ''RELEVANT PAST CONVERSATIONS:'') @ [newline] @
            ''- Date: 2024-01-01 10:00'' @ [newline] @
            ''  * Assistant: two'' @ [newline] @
            ''  * User: three'' @ [newline] @
            ''- Date: 2024-01-02 09:30'' @ [newline] @
            ''  * Assistant: '' @ replicate 100 (CHR ''x'') @ ''...'')"
proof -
  let ?saved = "[(''2024-01-01T10:00:00'', 0::nat), (''2024-01-02T09:30:00'', 1)]"
  let ?h = "[[\<lparr>msg_role = ''user'', msg_content = ''one''\<rparr>,
              \<lparr>msg_role = ''assistant'', msg_content = ''two''\<rparr>,
              \<lparr>msg_role = ''user'', msg_content = ''three''\<rparr>],
             [\<lparr>msg_role = ''assistant'', msg_content = replicate 150 (CHR ''x'')\<rparr>]]"
  have a: "\<forall>(ts, a)\<in>set ?saved.
      format_timestamp sample_collaborators ts = Inr (take 10 ts @ '' '' @ take 5 (drop 11 ts)) \<and>
      a < length ?h"
    by (simp add: sample_collaborators_def)
  have b: "?saved \<noteq> []" by simp
  note th = format_memory_blocks[OF a b, THEN conjunct2, THEN conjunct2, THEN conjunct1]
  have c: "format_memory_for_prompt sample_collaborators ?h
       \<lparr>user_profile = Some [], business_knowledge = Some [],
        conversation_history =
          Some [PDict [(''timestamp'', PStr ''2024-01-01T10:00:00''), (''messages'', PRef 0)],
                PDict [(''timestamp'', PStr ''2024-01-02T09:30:00''), (''messages'', PRef 1)]]\<rparr>
     = Inr ((newline # ''RELEVANT PAST CONVERSATIONS:'') @ [newline] @
            ''- Date: 2024-01-01 10:00'' @ [newline] @
            ''  * Assistant: two'' @ [newline] @
            ''  * User: three'' @ [newline] @
            ''- Date: 2024-01-02 09:30'' @ [newline] @
            ''  * Assistant: '' @ replicate 100 (CHR ''x'') @ ''...'')"
    using th by (simp add: capitalize_roles)
  have t: "format_timestamp sample_collaborators ''2024-01-01T10:00:00'' = Inr ''2024-01-01 10:00''"
    "format_timestamp sample_collaborators ''2024-01-02T09:30:00'' = Inr ''2024-01-02 09:30''"
    by (simp_all add: sample_collaborators_def)
  show ?thesis using t c by simp
qed

text \<open>
  C1, as the code has it. On a state with at least one message, when the memory context
  formats and the completion succeeds, the generate stage appends the assistant message to
  the list of the state, logs three progress messages and then updates the memory with no
  handler around it. If the profile update raises, that error is the result of the stage,
  no state is returned, and the store is as it was. If the business update raises after
  it, the error is the result and the store is as the profile update left it. If the store
  refuses the conversation record, the error is the result and the store is as the
  business update left it. In these three cases nothing more is logged, and the assistant
  message is already in the list. Only when the three writes succeed does the stage return
  the state, with the spoken response set, and the conversation is saved.
\<close>

theorem generate_response_memory_writes:
  assumes "messages state = Some a" and "a < length (heap w)" and "heap w ! a = msgs"
    and "msgs \<noteq> []"
    and "format_memory_for_prompt env (heap w)
           (case memory_search_results state of None \<Rightarrow> empty_results | Some r \<Rightarrow> r) = Inr ctx"
    and "prompt = \<lparr>msg_role = ''system'', msg_content = system_prompt ctx (get_user_id state)\<rparr> #
                  drop (length msgs - MAX_CONVERSATION_HISTORY) msgs"
    and "llm_invoke env prompt = Inr response"
    and "msgs' = msgs @ [\<lparr>msg_role = ''assistant'', msg_content = response\<rparr>]"
    and "w4 = w\<lparr>heap := (heap w)[a := msgs'],
                  completions := completions w @ [prompt],
                  log := log w @ [''Generating response...'',
                                  ''Generated response: '' @ take 100 response @ ''...'',
                                  ''Updating memory...'']\<rparr>"
  shows
    "(\<forall>e. profile_manager_invoke env msgs' (get_user_id state) (store_of w) = Inl e \<longrightarrow>
        generate_response env inp state w = (Inl e, w4)) \<and>
     (\<forall>st1 e.
        profile_manager_invoke env msgs' (get_user_id state) (store_of w) = Inr st1 \<and>
        business_manager_invoke env msgs' (get_user_id state) st1 = Inl e \<longrightarrow>
        generate_response env inp state w = (Inl e, w4\<lparr>store_of := st1\<rparr>)) \<and>
     (\<forall>st1 st2 e.
        profile_manager_invoke env msgs' (get_user_id state) (store_of w) = Inr st1 \<and>
        business_manager_invoke env msgs' (get_user_id state) st1 = Inr st2 \<and>
        put_failure env st2 (MEMORY_NAMESPACE_CONVERSATION, get_user_id state)
          (uuid_str (new_uuid inp)) = Some e \<longrightarrow>
        generate_response env inp state w = (Inl e, w4\<lparr>store_of := st2\<rparr>)) \<and>
     (\<forall>st1 st2.
        profile_manager_invoke env msgs' (get_user_id state) (store_of w) = Inr st1 \<and>
        business_manager_invoke env msgs' (get_user_id state) st1 = Inr st2 \<and>
        put_failure env st2 (MEMORY_NAMESPACE_CONVERSATION, get_user_id state)
          (uuid_str (new_uuid inp)) = None \<longrightarrow>
        generate_response env inp state w
          = (Inr (state\<lparr>messages := Some a,
                        spoken_response := Some (optimize_for_speech response)\<rparr>),
             w4\<lparr>store_of :=
                  put st2 (MEMORY_NAMESPACE_CONVERSATION, get_user_id state)
                    (uuid_str (new_uuid inp))
                    (PDict [(''timestamp'', PStr (now inp)), (''messages'', PRef a)])\<rparr>)) \<and>
     store_of w4 = store_of w \<and> list_at w4 a = msgs'"
proof -
  note r = generate_response_run[OF assms, of inp]
  have s: "store_of w4 = store_of w" "list_at w4 a = msgs'"
    using assms(2) by (simp_all add: assms(9) list_at_def)
  show ?thesis unfolding r using s by simp
qed

text \<open>
  The theorem on a first turn: with writes that succeed, with a profile update that raises,
  with a business update that raises, and with a store that refuses the record.
\<close>

theorem generate_response_memory_writes_witness:
  "generate_response sample_collaborators
       \<lparr>transcription = ''Hi'', new_uuid = 1, now = ''2024-01-01T10:00:00''\<rparr>
       \<lparr>messages = Some 0, user_id = Some ''default-user'',
        memory_search_results = Some empty_results, spoken_response = None\<rparr>
       \<lparr>store_of = [], heap = [[\<lparr>msg_role = ''user'', msg_content = ''Hi''\<rparr>]],
        tts_requests = [], completions = [], log = []\<rparr>
     = (Inr \<lparr>messages = Some 0, user_id = Some ''default-user'',
             memory_search_results = Some empty_results,
             spoken_response = Some (optimize_for_speech ''Hello **Aaron**'')\<rparr>,
        \<lparr>store_of = [(((MEMORY_NAMESPACE_CONVERSATION, ''default-user''), uuid_str 1),
                      PDict [(''timestamp'', PStr ''2024-01-01T10:00:00''),
                             (''messages'', PRef 0)])],
         heap = [[\<lparr>msg_role = ''user'', msg_content = ''Hi''\<rparr>,
                  \<lparr>msg_role = ''assistant'', msg_content = ''Hello **Aaron**''\<rparr>]],
         tts_requests = [],
         completions = [[\<lparr>msg_role = ''system'',
                          msg_content = system_prompt [] ''default-user''\<rparr>,
                         \<lparr>msg_role = ''user'', msg_content = ''Hi''\<rparr>]],
         log = [''Generating response...'', ''Generated response: Hello **Aaron**...'',
                ''Updating memory...'']\<rparr>) \<and>
   generate_response failing_collaborators
       \<lparr>transcription = ''Hi'', new_uuid = 1, now = ''2024-01-01T10:00:00''\<rparr>
       \<lparr>messages = Some 0, user_id = Some ''default-user'',
        memory_search_results = Some empty_results, spoken_response = None\<rparr>
       \<lparr>store_of = [], heap = [[\<lparr>msg_role = ''user'', msg_content = ''Hi''\<rparr>]],
        tts_requests = [], completions = [], log = []\<rparr>
     = (Inl (CollaboratorError ''extraction failed''),
        \<lparr>store_of = [],
         heap = [[\<lparr>msg_role = ''user'', msg_content = ''Hi''\<rparr>,
                  \<lparr>msg_role = ''assistant'', msg_content = ''Hello **Aaron**''\<rparr>]],
         tts_requests = [],
         completions = [[\<lparr>msg_role = ''system'',
                          msg_content = system_prompt [] ''default-user''\<rparr>,
                         \<lparr>msg_role = ''user'', msg_content = ''Hi''\<rparr>]],
         log = [''Generating response...'', ''Generated response: Hello **Aaron**...'',
                ''Updating memory...'']\<rparr>) \<and>
   generate_response
       (sample_collaborators
          \<lparr>profile_manager_invoke :=
             (\<lambda>msgs user st.
                Inr (put st (MEMORY_NAMESPACE_USER_PROFILE, user) ''profile''
                       (PDict [(''name'', PStr ''Aaron'')]))),
           business_manager_invoke :=
             (\<lambda>msgs user st. Inl (CollaboratorError ''merge failed''))\<rparr>)
       \<lparr>transcription = ''Hi'', new_uuid = 1, now = ''2024-01-01T10:00:00''\<rparr>
       \<lparr>messages = Some 0, user_id = Some ''default-user'',
        memory_search_results = Some empty_results, spoken_response = None\<rparr>
       \<lparr>store_of = [], heap = [[\<lparr>msg_role = ''user'', msg_content = ''Hi''\<rparr>]],
        tts_requests = [], completions = [], log = []\<rparr>
     = (Inl (CollaboratorError ''merge failed''),
        \<lparr>store_of = [(((MEMORY_NAMESPACE_USER_PROFILE, ''default-user''), ''profile''),
                      PDict [(''name'', PStr ''Aaron'')])],
         heap = [[\<lparr>msg_role = ''user'', msg_content = ''Hi''\<rparr>,
                  \<lparr>msg_role = ''assistant'', msg_content = ''Hello **Aaron**''\<rparr>]],
         tts_requests = [],
         completions = [[\<lparr>msg_role = ''system'',
                          msg_content = system_prompt [] ''default-user''\<rparr>,
                         \<lparr>msg_role = ''user'', msg_content = ''Hi''\<rparr>]],
         log = [''Generating response...'', ''Generated response: Hello **Aaron**...'',
                ''Updating memory...'']\<rparr>) \<and>
   generate_response
       (sample_collaborators
          \<lparr>put_failure := (\<lambda>st ns k. Some (CollaboratorError ''store failed'')),
           profile_manager_invoke :=
             (\<lambda>msgs user st.
                Inr (put st (MEMORY_NAMESPACE_USER_PROFILE, user) ''profile''
                       (PDict [(''name'', PStr ''Aaron'')])))\<rparr>)
       \<lparr>transcription = ''Hi'', new_uuid = 1, now = ''2024-01-01T10:00:00''\<rparr>
       \<lparr>messages = Some 0, user_id = Some ''default-user'',
        memory_search_results = Some empty_results, spoken_response = None\<rparr>
       \<lparr>store_of = [], heap = [[\<lparr>msg_role = ''user'', msg_content = ''Hi''\<rparr>]],
        tts_requests = [], completions = [], log = []\<rparr>
     = (Inl (CollaboratorError ''store failed''),
        \<lparr>store_of = [(((MEMORY_NAMESPACE_USER_PROFILE, ''default-user''), ''profile''),
                      PDict [(''name'', PStr ''Aaron'')])],
         heap = [[\<lparr>msg_role = ''user'', msg_content = ''Hi''\<rparr>,
                  \<lparr>msg_role = ''assistant'', msg_content = ''Hello **Aaron**''\<rparr>]],
         tts_requests = [],
         completions = [[\<lparr>msg_role = ''system'',
                          msg_content = system_prompt [] ''default-user''\<rparr>,
                         \<lparr>msg_role = ''user'', msg_content = ''Hi''\<rparr>]],
         log = [''Generating response...'', ''Generated response: Hello **Aaron**...'',
                ''Updating memory...'']\<rparr>)"
proof -
  let ?inp = "\<lparr>transcription = ''Hi'', new_uuid = 1, now = ''2024-01-01T10:00:00''\<rparr>"
  let ?s = "\<lparr>messages = Some 0, user_id = Some ''default-user'',
           memory_search_results = Some empty_results, spoken_response = None\<rparr>"
  let ?w = "\<lparr>store_of = [], heap = [[\<lparr>msg_role = ''user'', msg_content = ''Hi''\<rparr>]],
           tts_requests = [], completions = [], log = []\<rparr>"
  let ?msgs = "[\<lparr>msg_role = ''user'', msg_content = ''Hi''\<rparr>]"
  let ?prompt = "\<lparr>msg_role = ''system'', msg_content = system_prompt [] (get_user_id ?s)\<rparr> #
                  drop (length ?msgs - MAX_CONVERSATION_HISTORY) ?msgs"
  let ?msgs' = "?msgs @ [\<lparr>msg_role = ''assistant'', msg_content = ''Hello **Aaron**''\<rparr>]"
  let ?w4 = "?w\<lparr>heap := (heap ?w)[0 := ?msgs'],
                  completions := completions ?w @ [?prompt],
                  log := log ?w @ [''Generating response...'',
                                  ''Generated response: '' @ take 100 ''Hello **Aaron**'' @ ''...'',
                                  ''Updating memory...'']\<rparr>"
  let ?pst = "[(((MEMORY_NAMESPACE_USER_PROFILE, ''default-user''), ''profile''),
                PDict [(''name'', PStr ''Aaron'')])]"
  let ?b = "sample_collaborators
          \<lparr>profile_manager_invoke :=
             (\<lambda>msgs user st.
                Inr (put st (MEMORY_NAMESPACE_USER_PROFILE, user) ''profile''
                       (PDict [(''name'', PStr ''Aaron'')]))),
           business_manager_invoke :=
             (\<lambda>msgs user st. Inl (CollaboratorError ''merge failed''))\<rparr>"
  let ?p = "sample_collaborators
          \<lparr>put_failure := (\<lambda>st ns k. Some (CollaboratorError ''store failed'')),
           profile_manager_invoke :=
             (\<lambda>msgs user st.
                Inr (put st (MEMORY_NAMESPACE_USER_PROFILE, user) ''profile''
                       (PDict [(''name'', PStr ''Aaron'')])))\<rparr>"
  have m: "messages ?s = Some 0" "0 < length (heap ?w)" "heap ?w ! 0 = ?msgs" "?msgs \<noteq> []"
    by simp_all
  have f: "\<And>env. format_memory_for_prompt env (heap ?w)
           (case memory_search_results ?s of None \<Rightarrow> empty_results | Some r \<Rightarrow> r) = Inr []"
    by (simp add: format_empty_results)
  have l: "llm_invoke sample_collaborators ?prompt = Inr ''Hello **Aaron**''"
    "llm_invoke failing_collaborators ?prompt = Inr ''Hello **Aaron**''"
    "llm_invoke ?b ?prompt = Inr ''Hello **Aaron**''"
    "llm_invoke ?p ?prompt = Inr ''Hello **Aaron**''"
    by (simp_all add: sample_collaborators_def failing_collaborators_def)
  have a: "generate_response sample_collaborators ?inp ?s ?w
     = (Inr (?s\<lparr>messages := Some 0,
                spoken_response := Some (optimize_for_speech ''Hello **Aaron**'')\<rparr>),
        ?w4\<lparr>store_of := put [] (MEMORY_NAMESPACE_CONVERSATION, get_user_id ?s)
                          (uuid_str (new_uuid ?inp))
                          (PDict [(''timestamp'', PStr (now ?inp)), (''messages'', PRef 0)])\<rparr>)"
    using generate_response_memory_writes[OF m f refl l(1) refl refl, of ?inp,
        THEN conjunct2, THEN conjunct2, THEN conjunct2, THEN conjunct1]
    by (simp add: sample_fields)
  have b: "generate_response failing_collaborators ?inp ?s ?w
             = (Inl (CollaboratorError ''extraction failed''), ?w4)"
    using generate_response_memory_writes[OF m f refl l(2) refl refl, of ?inp, THEN conjunct1]
    by (simp add: failing_fields)
  have c: "generate_response ?b ?inp ?s ?w
             = (Inl (CollaboratorError ''merge failed''),
                ?w4\<lparr>store_of := put [] (MEMORY_NAMESPACE_USER_PROFILE, get_user_id ?s)
                                  ''profile'' (PDict [(''name'', PStr ''Aaron'')])\<rparr>)"
    using generate_response_memory_writes[OF m f refl l(3) refl refl, of ?inp,
        THEN conjunct2, THEN conjunct1]
    by (simp add: sample_collaborators_def)
  have d: "generate_response ?p ?inp ?s ?w
             = (Inl (CollaboratorError ''store failed''),
                ?w4\<lparr>store_of := put [] (MEMORY_NAMESPACE_USER_PROFILE, get_user_id ?s)
                                  ''profile'' (PDict [(''name'', PStr ''Aaron'')])\<rparr>)"
    using generate_response_memory_writes[OF m f refl l(4) refl refl, of ?inp,
        THEN conjunct2, THEN conjunct2, THEN conjunct1]
    by (simp add: sample_collaborators_def)
  show ?thesis
    unfolding a b c d
    by (simp add: get_user_id_def MAX_CONVERSATION_HISTORY_def put_def)
qed

text \<open>
  C1 as stated fails: with a profile update that raises, the generate stage raises that
  error to its caller and returns no state, although the response was computed.
\<close>

theorem generate_response_write_failure_propagates:
  "fst (generate_response failing_collaborators
          \<lparr>transcription = ''Hi'', new_uuid = 1, now = ''2024-01-01T10:00:00''\<rparr>
          \<lparr>messages = Some 0, user_id = Some ''default-user'',
           memory_search_results = Some empty_results, spoken_response = None\<rparr>
          \<lparr>store_of = [], heap = [[\<lparr>msg_role = ''user'', msg_content = ''Hi''\<rparr>]],
           tts_requests = [], completions = [], log = []\<rparr>)
     = Inl (CollaboratorError ''extraction failed'')"
proof -
  let ?s = "\<lparr>messages = Some 0, user_id = Some ''default-user'',
           memory_search_results = Some empty_results, spoken_response = None\<rparr>"
  let ?w = "\<lparr>store_of = [], heap = [[\<lparr>msg_role = ''user'', msg_content = ''Hi''\<rparr>]],
           tts_requests = [], completions = [], log = []\<rparr>"
  let ?msgs = "[\<lparr>msg_role = ''user'', msg_content = ''Hi''\<rparr>]"
  have m: "messages ?s = Some 0" "0 < length (heap ?w)" "heap ?w ! 0 = ?msgs" "?msgs \<noteq> []"
    by simp_all
  have f: "format_memory_for_prompt failing_collaborators (heap ?w)
           (case memory_search_results ?s of None \<Rightarrow> empty_results | Some r \<Rightarrow> r) = Inr []"
    by (simp add: format_empty_results)
  show ?thesis
    unfolding generate_response_run[OF m f refl failing_fields(2) refl refl]
    by (simp add: failing_fields)
qed

text \<open>
  C2, as the code has it. With an empty transcription the capture stage logs that it
  records, hands the fallback prompt to playback once and returns the state as it was,
  with no message appended. The graph has no edge that leaves early: the turn goes on
  with retrieve, generate and render on that state. When the state has no messages and no
  spoken response, these three stages only log their progress: they add no message, ask
  for no completion and play nothing more.
\<close>

theorem empty_transcript_turn:
  assumes "transcription inp = []"
  shows "voice_input inp state w
           = (Inr state,
              w\<lparr>tts_requests := tts_requests w @ [fallback_prompt],
                log := log w @ [''Recording user input...'']\<rparr>) \<and>
         invoke env inp state w
           = (case search_memory env state
                     (w\<lparr>tts_requests := tts_requests w @ [fallback_prompt],
                       log := log w @ [''Recording user input...'']\<rparr>) of
                (Inl e, w2) \<Rightarrow> (Inl e, w2)
              | (Inr s2, w2) \<Rightarrow>
                  (case generate_response env inp s2 w2 of
                     (Inl e, w3) \<Rightarrow> (Inl e, w3)
                   | (Inr s3, w3) \<Rightarrow> voice_output s3 w3)) \<and>
         (get_messages state w = [] \<and> spoken_response state = None \<longrightarrow>
            invoke env inp state w
              = (Inr (state\<lparr>memory_search_results := Some empty_results\<rparr>),
                 w\<lparr>tts_requests := tts_requests w @ [fallback_prompt],
                   log := log w @ [''Recording user input...'', ''Searching memory...'',
                                   ''Generating response...'',
                                   ''Converting response to speech...'']\<rparr>))"
proof -
  let ?w1 = "w\<lparr>tts_requests := tts_requests w @ [fallback_prompt],
                log := log w @ [''Recording user input...'']\<rparr>"
  have v: "voice_input inp state w = (Inr state, ?w1)"
    using assms by (simp add: voice_input_def speak_fallback Let_def info_def)
  have i: "invoke env inp state w
           = (case search_memory env state ?w1 of
                (Inl e, w2) \<Rightarrow> (Inl e, w2)
              | (Inr s2, w2) \<Rightarrow>
                  (case generate_response env inp s2 w2 of
                     (Inl e, w3) \<Rightarrow> (Inl e, w3)
                   | (Inr s3, w3) \<Rightarrow> voice_output s3 w3))"
    by (simp add: invoke_stages v)
  have n: "get_messages state w = [] \<and> spoken_response state = None \<longrightarrow>
            invoke env inp state w
              = (Inr (state\<lparr>memory_search_results := Some empty_results\<rparr>),
                 w\<lparr>tts_requests := tts_requests w @ [fallback_prompt],
                   log := log w @ [''Recording user input...'', ''Searching memory...'',
                                   ''Generating response...'',
                                   ''Converting response to speech...'']\<rparr>)"
  proof
    assume a: "get_messages state w = [] \<and> spoken_response state = None"
    then have g: "get_messages state ?w1 = []"
      by (auto simp: get_messages_def list_at_def split: option.splits if_splits)
    have s: "search_memory env state ?w1
               = (Inr (state\<lparr>memory_search_results := Some empty_results\<rparr>),
                  ?w1\<lparr>log := log ?w1 @ [''Searching memory...'']\<rparr>)"
      using g by (simp add: search_memory_def Let_def get_messages_info) (simp add: info_def)
    have gr: "generate_response env inp (state\<lparr>memory_search_results := Some empty_results\<rparr>)
                (?w1\<lparr>log := log ?w1 @ [''Searching memory...'']\<rparr>)
              = (Inr (state\<lparr>memory_search_results := Some empty_results\<rparr>),
                 ?w1\<lparr>log := log ?w1 @ [''Searching memory...'', ''Generating response...'']\<rparr>)"
      using g by (auto simp: generate_response_def Let_def get_messages_def list_at_def info_def
          split: option.splits)
    have vo: "voice_output (state\<lparr>memory_search_results := Some empty_results\<rparr>)
                (?w1\<lparr>log := log ?w1 @ [''Searching memory...'', ''Generating response...'']\<rparr>)
              = (Inr (state\<lparr>memory_search_results := Some empty_results\<rparr>),
                 w\<lparr>tts_requests := tts_requests w @ [fallback_prompt],
                   log := log w @ [''Recording user input...'', ''Searching memory...'',
                                   ''Generating response...'',
                                   ''Converting response to speech...'']\<rparr>)"
      using a by (simp add: voice_output_def Let_def info_def)
    show "invoke env inp state w
              = (Inr (state\<lparr>memory_search_results := Some empty_results\<rparr>),
                 w\<lparr>tts_requests := tts_requests w @ [fallback_prompt],
                   log := log w @ [''Recording user input...'', ''Searching memory...'',
                                   ''Generating response...'',
                                   ''Converting response to speech...'']\<rparr>)"
      unfolding i s using gr vo by simp
  qed
  show ?thesis using v i n by blast
qed

text \<open>
  The theorem on the first turn of a session.
\<close>

theorem empty_transcript_turn_witness:
  "transcription \<lparr>transcription = [], new_uuid = 1, now = ''2024-01-01T10:00:00''\<rparr> = [] \<and>
   get_messages initial_state initial_world = [] \<and> spoken_response initial_state = None \<and>
   voice_input \<lparr>transcription = [], new_uuid = 1, now = ''2024-01-01T10:00:00''\<rparr>
       initial_state initial_world
     = (Inr initial_state,
        initial_world\<lparr>tts_requests := [fallback_prompt],
                      log := [''Recording user input...'']\<rparr>) \<and>
   invoke sample_collaborators
       \<lparr>transcription = [], new_uuid = 1, now = ''2024-01-01T10:00:00''\<rparr>
       initial_state initial_world
     = (Inr (initial_state\<lparr>memory_search_results := Some empty_results\<rparr>),
        initial_world\<lparr>tts_requests := [fallback_prompt],
                      log := [''Recording user input...'', ''Searching memory...'',
                              ''Generating response...'',
                              ''Converting response to speech...'']\<rparr>)"
proof -
  let ?inp = "\<lparr>transcription = [], new_uuid = 1, now = ''2024-01-01T10:00:00''\<rparr>"
  have h: "transcription ?inp = []" by simp
  have g: "get_messages initial_state initial_world = []" "spoken_response initial_state = None"
    by (simp_all add: get_messages_def initial_state_def initial_world_def list_at_def)
  have t: "tts_requests initial_world = []" "log initial_world = []"
    by (simp_all add: initial_world_def)
  note th = empty_transcript_turn[OF h, of initial_state initial_world sample_collaborators]
  have v: "voice_input ?inp initial_state initial_world
     = (Inr initial_state,
        initial_world\<lparr>tts_requests := [fallback_prompt],
                      log := [''Recording user input...'']\<rparr>)"
    using th[THEN conjunct1] t by simp
  have i: "invoke sample_collaborators ?inp initial_state initial_world
     = (Inr (initial_state\<lparr>memory_search_results := Some empty_results\<rparr>),
        initial_world\<lparr>tts_requests := [fallback_prompt],
                      log := [''Recording user input...'', ''Searching memory...'',
                              ''Generating response...'',
                              ''Converting response to speech...'']\<rparr>)"
    using th[THEN conjunct2, THEN conjunct2] g t by simp
  show ?thesis using h g v i by simp
qed

text \<open>
  C2 as stated fails: on a state that holds an earlier message, a turn with an empty
  transcription goes through all the stages: a completion is requested, an assistant
  message is appended and the response is played after the fallback prompt.
\<close>

theorem empty_transcript_turn_runs_all_stages:
  "fst (invoke sample_collaborators
          \<lparr>transcription = [], new_uuid = 1, now = ''2024-01-01T10:00:00''\<rparr>
          \<lparr>messages = Some 0, user_id = Some ''default-user'', memory_search_results = None,
           spoken_response = None\<rparr>
          \<lparr>store_of = [], heap = [[\<lparr>msg_role = ''user'', msg_content = ''Hi''\<rparr>]],
           tts_requests = [], completions = [], log = []\<rparr>)
     = Inr \<lparr>messages = Some 0, user_id = Some ''default-user'',
            memory_search_results =
              Some \<lparr>user_profile = Some [], business_knowledge = Some [],
                    conversation_history = Some []\<rparr>,
            spoken_response = Some ''Hello Aaron''\<rparr> \<and>
   heap (snd (invoke sample_collaborators
          \<lparr>transcription = [], new_uuid = 1, now = ''2024-01-01T10:00:00''\<rparr>
          \<lparr>messages = Some 0, user_id = Some ''default-user'', memory_search_results = None,
           spoken_response = None\<rparr>
          \<lparr>store_of = [], heap = [[\<lparr>msg_role = ''user'', msg_content = ''Hi''\<rparr>]],
           tts_requests = [], completions = [], log = []\<rparr>))
     = [[\<lparr>msg_role = ''user'', msg_content = ''Hi''\<rparr>,
         \<lparr>msg_role = ''assistant'', msg_content = ''Hello **Aaron**''\<rparr>]] \<and>
   tts_requests (snd (invoke sample_collaborators
          \<lparr>transcription = [], new_uuid = 1, now = ''2024-01-01T10:00:00''\<rparr>
          \<lparr>messages = Some 0, user_id = Some ''default-user'', memory_search_results = None,
           spoken_response = None\<rparr>
          \<lparr>store_of = [], heap = [[\<lparr>msg_role = ''user'', msg_content = ''Hi''\<rparr>]],
           tts_requests = [], completions = [], log = []\<rparr>))
     = [fallback_prompt, ''Hello Aaron''] \<and>
   length (completions (snd (invoke sample_collaborators
          \<lparr>transcription = [], new_uuid = 1, now = ''2024-01-01T10:00:00''\<rparr>
          \<lparr>messages = Some 0, user_id = Some ''default-user'', memory_search_results = None,
           spoken_response = None\<rparr>
          \<lparr>store_of = [], heap = [[\<lparr>msg_role = ''user'', msg_content = ''Hi''\<rparr>]],
           tts_requests = [], completions = [], log = []\<rparr>))) = 1"
proof -
  let ?inp = "\<lparr>transcription = [], new_uuid = 1, now = ''2024-01-01T10:00:00''\<rparr>"
  let ?s0 = "\<lparr>messages = Some 0, user_id = Some ''default-user'', memory_search_results = None,
           spoken_response = None\<rparr>"
  let ?msgs = "[\<lparr>msg_role = ''user'', msg_content = ''Hi''\<rparr>]"
  let ?w0 = "\<lparr>store_of = [], heap = [?msgs], tts_requests = [], completions = [], log = []\<rparr>"
  let ?w1 = "\<lparr>store_of = [], heap = [?msgs], tts_requests = [fallback_prompt],
             completions = [], log = [''Recording user input...'']\<rparr>"
  let ?w2 = "\<lparr>store_of = [], heap = [?msgs], tts_requests = [fallback_prompt],
             completions = [],
             log = [''Recording user input...'', ''Searching memory...'',
                    ''Memory search results: '']\<rparr>"
  let ?res = "\<lparr>user_profile = Some [], business_knowledge = Some [],
                    conversation_history = Some []\<rparr>"
  let ?s2 = "\<lparr>messages = Some 0, user_id = Some ''default-user'',
             memory_search_results = Some ?res, spoken_response = None\<rparr>"
  let ?s3 = "\<lparr>messages = Some 0, user_id = Some ''default-user'',
             memory_search_results = Some ?res, spoken_response = Some ''Hello Aaron''\<rparr>"
  let ?prompt = "\<lparr>msg_role = ''system'', msg_content = system_prompt [] (get_user_id ?s2)\<rparr> #
                  drop (length ?msgs - MAX_CONVERSATION_HISTORY) ?msgs"
  let ?msgs' = "?msgs @ [\<lparr>msg_role = ''assistant'', msg_content = ''Hello **Aaron**''\<rparr>]"
  have a: "voice_input ?inp ?s0 ?w0 = (Inr ?s0, ?w1)"
    by (simp add: voice_input_def speak_fallback Let_def info_def)
  have mm: "MemoryManager_search_memory sample_collaborators [] ''Hi'' ''default-user'' = Inr ?res"
    by (simp add: MemoryManager_search_memory_def search_empty_store sample_fields bind_def)
  have b: "search_memory sample_collaborators ?s0 ?w1 = (Inr ?s2, ?w2)"
    by (simp add: search_memory_def get_messages_def get_user_id_def mm list_at_def info_def
        Let_def sample_fields)
  have m: "messages ?s2 = Some 0" "0 < length (heap ?w2)" "heap ?w2 ! 0 = ?msgs" "?msgs \<noteq> []"
    by simp_all
  have f: "format_memory_for_prompt sample_collaborators (heap ?w2)
           (case memory_search_results ?s2 of None \<Rightarrow> empty_results | Some r \<Rightarrow> r) = Inr []"
    by (simp add: format_memory_for_prompt_def bind_def)
  note g = generate_response_run[OF m f refl sample_fields(3) refl refl, of ?inp]
  have g': "fst (generate_response sample_collaborators ?inp ?s2 ?w2) = Inr ?s3"
    "heap (snd (generate_response sample_collaborators ?inp ?s2 ?w2)) = [?msgs']"
    "tts_requests (snd (generate_response sample_collaborators ?inp ?s2 ?w2)) = [fallback_prompt]"
    "length (completions (snd (generate_response sample_collaborators ?inp ?s2 ?w2))) = 1"
    unfolding g by (simp_all add: sample_fields optimize_hello)
  obtain w3 where e: "generate_response sample_collaborators ?inp ?s2 ?w2 = (Inr ?s3, w3)"
    using g'(1) by (cases "generate_response sample_collaborators ?inp ?s2 ?w2") auto
  have w3: "heap w3 = [?msgs']" "tts_requests w3 = [fallback_prompt]" "length (completions w3) = 1"
    using g'(2,3,4) unfolding e by simp_all
  have "invoke sample_collaborators ?inp ?s0 ?w0 = voice_output ?s3 w3"
    by (simp add: invoke_stages a b e)
  then show ?thesis
    using w3 by (simp add: voice_output_def speak_def info_def Let_def)
qed

section \<open>Text for speech\<close>

subsection \<open>Replacing URLs\<close>

lemma url_here_iff:
  "url_here s \<longleftrightarrow>
     (\<exists>x r. \<not> is_space x \<and> (s = ''http://'' @ x # r \<or> s = ''https://'' @ x # r))"
proof
  have l: "length ''http://'' = 7" "length ''https://'' = 8" by simp_all
  assume "url_here s"
  then consider (a) "take 7 s = ''http://''" "drop 7 s \<noteq> []" "\<not> is_space (hd (drop 7 s))"
    | (b) "take 8 s = ''https://''" "drop 8 s \<noteq> []" "\<not> is_space (hd (drop 8 s))"
    unfolding url_here_def starts_with_def l by blast
  then show "\<exists>x r. \<not> is_space x \<and> (s = ''http://'' @ x # r \<or> s = ''https://'' @ x # r)"
  proof cases
    case a
    then obtain x r where "drop 7 s = x # r" by (cases "drop 7 s") auto
    with a have "s = ''http://'' @ x # r" "\<not> is_space x"
      using append_take_drop_id[of 7 s] by auto
    then show ?thesis by blast
  next
    case b
    then obtain x r where "drop 8 s = x # r" by (cases "drop 8 s") auto
    with b have "s = ''https://'' @ x # r" "\<not> is_space x"
      using append_take_drop_id[of 8 s] by auto
    then show ?thesis by blast
  qed
next
  assume "\<exists>x r. \<not> is_space x \<and> (s = ''http://'' @ x # r \<or> s = ''https://'' @ x # r)"
  then show "url_here s" by (auto simp: url_here_def starts_with_def)
qed

lemma url_here_head: "url_here (c # cs) \<Longrightarrow> c = CHR ''h''"
  by (auto simp: url_here_iff)

lemma not_space_h: "\<not> is_space (CHR ''h'')"
  by (simp add: is_space_def)

lemma sub_urls_cons_not_l:
  assumes "sub_urls cs = a # t" and "a \<noteq> CHR ''l''"
  shows "\<exists>cs'. cs = a # cs' \<and> t = sub_urls cs'"
proof (cases cs)
  case Nil
  with assms show ?thesis by simp
next
  case (Cons c cs')
  with assms show ?thesis by (auto split: if_splits)
qed

lemma sub_urls_head_not_space:
  assumes "sub_urls cs = a # t" and "\<not> is_space a"
  shows "\<exists>y r. cs = y # r \<and> \<not> is_space y"
proof (cases cs)
  case Nil
  with assms show ?thesis by simp
next
  case (Cons c cs')
  show ?thesis
  proof (cases "url_here (c # cs')")
    case True
    then have "c = CHR ''h''" by (rule url_here_head)
    then show ?thesis using Cons not_space_h by simp
  next
    case False
    with assms Cons show ?thesis by simp
  qed
qed


lemma url_here_after_sub_urls:
  assumes "url_here (c # sub_urls cs)"
  shows "url_here (c # cs)"
proof -
  from assms obtain x r where x: "\<not> is_space x"
    and e: "c # sub_urls cs = ''http://'' @ x # r \<or> c # sub_urls cs = ''https://'' @ x # r"
    unfolding url_here_iff by blast
  from e show ?thesis
  proof
    assume "c # sub_urls cs = ''http://'' @ x # r"
    then have c: "c = CHR ''h''" and 0: "sub_urls cs = CHR ''t'' # (''tp://'' @ x # r)" by simp_all
    from sub_urls_cons_not_l[OF 0] obtain c1 where 1: "cs = CHR ''t'' # c1"
      "sub_urls c1 = CHR ''t'' # (''p://'' @ x # r)" by auto
    from sub_urls_cons_not_l[OF 1(2)] obtain c2 where 2: "c1 = CHR ''t'' # c2"
      "sub_urls c2 = CHR ''p'' # (''://'' @ x # r)" by auto
    from sub_urls_cons_not_l[OF 2(2)] obtain c3 where 3: "c2 = CHR ''p'' # c3"
      "sub_urls c3 = CHR '':'' # (''//'' @ x # r)" by auto
    from sub_urls_cons_not_l[OF 3(2)] obtain c4 where 4: "c3 = CHR '':'' # c4"
      "sub_urls c4 = CHR ''/'' # (''/'' @ x # r)" by auto
    from sub_urls_cons_not_l[OF 4(2)] obtain c5 where 5: "c4 = CHR ''/'' # c5"
      "sub_urls c5 = CHR ''/'' # (x # r)" by auto
    from sub_urls_cons_not_l[OF 5(2)] obtain c6 where 6: "c5 = CHR ''/'' # c6"
      "sub_urls c6 = x # r" by auto
    from sub_urls_head_not_space[OF 6(2) x] obtain y r' where 7: "c6 = y # r'" "\<not> is_space y"
      by blast
    have "c # cs = ''http://'' @ y # r'" using c 1 2 3 4 5 6 7 by simp
    then show ?thesis unfolding url_here_iff using 7(2) by blast
  next
    assume "c # sub_urls cs = ''https://'' @ x # r"
    then have c: "c = CHR ''h''" and 0: "sub_urls cs = CHR ''t'' # (''tps://'' @ x # r)" by simp_all
    from sub_urls_cons_not_l[OF 0] obtain c1 where 1: "cs = CHR ''t'' # c1"
      "sub_urls c1 = CHR ''t'' # (''ps://'' @ x # r)" by auto
    from sub_urls_cons_not_l[OF 1(2)] obtain c2 where 2: "c1 = CHR ''t'' # c2"
      "sub_urls c2 = CHR ''p'' # (''s://'' @ x # r)" by auto
    from sub_urls_cons_not_l[OF 2(2)] obtain c3 where 3: "c2 = CHR ''p'' # c3"
      "sub_urls c3 = CHR ''s'' # (''://'' @ x # r)" by auto
    from sub_urls_cons_not_l[OF 3(2)] obtain c3' where 8: "c3 = CHR ''s'' # c3'"
      "sub_urls c3' = CHR '':'' # (''//'' @ x # r)" by auto
    from sub_urls_cons_not_l[OF 8(2)] obtain c4 where 4: "c3' = CHR '':'' # c4"
      "sub_urls c4 = CHR ''/'' # (''/'' @ x # r)" by auto
    from sub_urls_cons_not_l[OF 4(2)] obtain c5 where 5: "c4 = CHR ''/'' # c5"
      "sub_urls c5 = CHR ''/'' # (x # r)" by auto
    from sub_urls_cons_not_l[OF 5(2)] obtain c6 where 6: "c5 = CHR ''/'' # c6"
      "sub_urls c6 = x # r" by auto
    from sub_urls_head_not_space[OF 6(2) x] obtain y r' where 7: "c6 = y # r'" "\<not> is_space y"
      by blast
    have "c # cs = ''https://'' @ y # r'" using c 1 2 3 8 4 5 6 7 by simp
    then show ?thesis unfolding url_here_iff using 7(2) by blast
  qed
qed

lemma has_url_append_link: "has_url (''link'' @ r) = has_url r"
  using url_here_head by fastforce

lemma sub_urls_no_url: "\<not> has_url (sub_urls s)"
proof (induction s rule: sub_urls.induct)
  case 1
  then show ?case by simp
next
  case (2 c cs)
  show ?case
  proof (cases "url_here (c # cs)")
    case True
    then have "sub_urls (c # cs) = ''link'' @ sub_urls (dropWhile (\<lambda>x. \<not> is_space x) cs)"
      by simp
    then show ?thesis using 2(1)[OF True] by (metis has_url_append_link)
  next
    case False
    then have "sub_urls (c # cs) = c # sub_urls cs" by simp
    then show ?thesis using 2(2)[OF False] False url_here_after_sub_urls by auto
  qed
qed

lemma sub_urls_id: "\<not> has_url s \<Longrightarrow> sub_urls s = s"
  by (induction s rule: sub_urls.induct) auto

subsection \<open>Collapsing newlines\<close>

lemma has_url_suffix: "has_url (dropWhile P xs) \<Longrightarrow> has_url xs"
  by (induction xs) (auto split: if_splits)

lemma occurs_in_suffix: "occurs_in p (dropWhile P xs) \<Longrightarrow> occurs_in p xs"
  by (induction xs) (auto split: if_splits)

lemma sub_newlines_cons_not_newline:
  assumes "sub_newlines cs = a # t" and "a \<noteq> newline"
  shows "\<exists>cs'. cs = a # cs' \<and> t = sub_newlines cs'"
proof (cases cs)
  case Nil
  with assms show ?thesis by simp
next
  case (Cons c cs')
  with assms show ?thesis by (auto split: if_splits)
qed

lemma sub_newlines_head:
  assumes "sub_newlines cs = a # t"
  shows "\<exists>r. cs = a # r"
proof (cases cs)
  case Nil
  with assms show ?thesis by simp
next
  case (Cons c cs')
  with assms show ?thesis by (auto split: if_splits)
qed

lemma url_here_after_sub_newlines:
  assumes "url_here (c # sub_newlines cs)"
  shows "url_here (c # cs)"
proof -
  have n: "CHR ''t'' \<noteq> newline" "CHR ''p'' \<noteq> newline" "CHR ''s'' \<noteq> newline"
    "CHR '':'' \<noteq> newline" "CHR ''/'' \<noteq> newline"
    by (simp_all add: newline_def)
  from assms obtain x r where x: "\<not> is_space x"
    and e: "c # sub_newlines cs = ''http://'' @ x # r \<or> c # sub_newlines cs = ''https://'' @ x # r"
    unfolding url_here_iff by blast
  from e show ?thesis
  proof
    assume "c # sub_newlines cs = ''http://'' @ x # r"
    then have c: "c = CHR ''h''" and 0: "sub_newlines cs = CHR ''t'' # (''tp://'' @ x # r)"
      by simp_all
    from sub_newlines_cons_not_newline[OF 0 n(1)] obtain c1 where 1: "cs = CHR ''t'' # c1"
      "sub_newlines c1 = CHR ''t'' # (''p://'' @ x # r)" by auto
    from sub_newlines_cons_not_newline[OF 1(2) n(1)] obtain c2 where 2: "c1 = CHR ''t'' # c2"
      "sub_newlines c2 = CHR ''p'' # (''://'' @ x # r)" by auto
    from sub_newlines_cons_not_newline[OF 2(2) n(2)] obtain c3 where 3: "c2 = CHR ''p'' # c3"
      "sub_newlines c3 = CHR '':'' # (''//'' @ x # r)" by auto
    from sub_newlines_cons_not_newline[OF 3(2) n(4)] obtain c4 where 4: "c3 = CHR '':'' # c4"
      "sub_newlines c4 = CHR ''/'' # (''/'' @ x # r)" by auto
    from sub_newlines_cons_not_newline[OF 4(2) n(5)] obtain c5 where 5: "c4 = CHR ''/'' # c5"
      "sub_newlines c5 = CHR ''/'' # (x # r)" by auto
    from sub_newlines_cons_not_newline[OF 5(2) n(5)] obtain c6 where 6: "c5 = CHR ''/'' # c6"
      "sub_newlines c6 = x # r" by auto
    from sub_newlines_head[OF 6(2)] obtain r' where 7: "c6 = x # r'" by blast
    have "c # cs = ''http://'' @ x # r'" using c 1 2 3 4 5 6 7 by simp
    then show ?thesis unfolding url_here_iff using x by blast
  next
    assume "c # sub_newlines cs = ''https://'' @ x # r"
    then have c: "c = CHR ''h''" and 0: "sub_newlines cs = CHR ''t'' # (''tps://'' @ x # r)"
      by simp_all
    from sub_newlines_cons_not_newline[OF 0 n(1)] obtain c1 where 1: "cs = CHR ''t'' # c1"
      "sub_newlines c1 = CHR ''t'' # (''ps://'' @ x # r)" by auto
    from sub_newlines_cons_not_newline[OF 1(2) n(1)] obtain c2 where 2: "c1 = CHR ''t'' # c2"
      "sub_newlines c2 = CHR ''p'' # (''s://'' @ x # r)" by auto
    from sub_newlines_cons_not_newline[OF 2(2) n(2)] obtain c3 where 3: "c2 = CHR ''p'' # c3"
      "sub_newlines c3 = CHR ''s'' # (''://'' @ x # r)" by auto
    from sub_newlines_cons_not_newline[OF 3(2) n(3)] obtain c8 where 8: "c3 = CHR ''s'' # c8"
      "sub_newlines c8 = CHR '':'' # (''//'' @ x # r)" by auto
    from sub_newlines_cons_not_newline[OF 8(2) n(4)] obtain c4 where 4: "c8 = CHR '':'' # c4"
      "sub_newlines c4 = CHR ''/'' # (''/'' @ x # r)" by auto
    from sub_newlines_cons_not_newline[OF 4(2) n(5)] obtain c5 where 5: "c4 = CHR ''/'' # c5"
      "sub_newlines c5 = CHR ''/'' # (x # r)" by auto
    from sub_newlines_cons_not_newline[OF 5(2) n(5)] obtain c6 where 6: "c5 = CHR ''/'' # c6"
      "sub_newlines c6 = x # r" by auto
    from sub_newlines_head[OF 6(2)] obtain r' where 7: "c6 = x # r'" by blast
    have "c # cs = ''https://'' @ x # r'" using c 1 2 3 8 4 5 6 7 by simp
    then show ?thesis unfolding url_here_iff using x by blast
  qed
qed

lemma not_url_here_newline: "\<not> url_here (newline # r)"
  using url_here_head[of newline r] by (auto simp: newline_def)

lemma sub_newlines_has_url: "has_url (sub_newlines s) \<Longrightarrow> has_url s"
proof (induction s rule: sub_newlines.induct)
  case 1
  then show ?case by simp
next
  case (2 c cs)
  show ?case
  proof (cases "c = newline \<and> cs \<noteq> [] \<and> hd cs = newline")
    case True
    then have "sub_newlines (c # cs) = newline # sub_newlines (dropWhile (\<lambda>x. x = newline) cs)"
      by simp
    with 2(3) have "has_url (sub_newlines (dropWhile (\<lambda>x. x = newline) cs))"
      by (simp add: not_url_here_newline)
    then have "has_url (dropWhile (\<lambda>x. x = newline) cs)" using 2(1)[OF True] by blast
    then show ?thesis using has_url_suffix by auto
  next
    case False
    then have e: "sub_newlines (c # cs) = c # sub_newlines cs" by auto
    from 2(3) have "url_here (c # sub_newlines cs) \<or> has_url (sub_newlines cs)"
      unfolding e by simp
    then show ?thesis using url_here_after_sub_newlines 2(2)[OF False] by auto
  qed
qed

lemma starts_with_two: "starts_with [a, b] s \<longleftrightarrow> (\<exists>r. s = a # b # r)"
  by (cases s; cases "tl s") (auto simp: starts_with_def)

lemma sub_newlines_no_double: "\<not> occurs_in [newline, newline] (sub_newlines s)"
proof (induction s rule: sub_newlines.induct)
  case 1
  then show ?case by simp
next
  case (2 c cs)
  show ?case
  proof (cases "c = newline \<and> cs \<noteq> [] \<and> hd cs = newline")
    case True
    let ?d = "dropWhile (\<lambda>x. x = newline) cs"
    have e: "sub_newlines (c # cs) = newline # sub_newlines ?d" using True by simp
    have "\<not> starts_with [newline, newline] (newline # sub_newlines ?d)"
    proof
      assume "starts_with [newline, newline] (newline # sub_newlines ?d)"
      then obtain r where "sub_newlines ?d = newline # r" by (auto simp: starts_with_two)
      then obtain r' where "?d = newline # r'" using sub_newlines_head by blast
      then show False using hd_dropWhile[of "\<lambda>x. x = newline" cs] by auto
    qed
    then show ?thesis using 2(1)[OF True] unfolding e by simp
  next
    case False
    then have e: "sub_newlines (c # cs) = c # sub_newlines cs" by auto
    have "\<not> starts_with [newline, newline] (c # sub_newlines cs)"
    proof
      assume "starts_with [newline, newline] (c # sub_newlines cs)"
      then obtain r where "c = newline" "sub_newlines cs = newline # r"
        by (auto simp: starts_with_two)
      then obtain r' where "c = newline" "cs = newline # r'" using sub_newlines_head by blast
      then show False using False by simp
    qed
    then show ?thesis using 2(2)[OF False] unfolding e by simp
  qed
qed

lemma sub_newlines_id: "\<not> occurs_in [newline, newline] s \<Longrightarrow> sub_newlines s = s"
proof (induction s rule: sub_newlines.induct)
  case 1
  then show ?case by simp
next
  case (2 c cs)
  from 2(3) have a: "\<not> starts_with [newline, newline] (c # cs)" and b: "\<not> occurs_in [newline, newline] cs"
    by simp_all
  from a have f: "\<not> (c = newline \<and> cs \<noteq> [] \<and> hd cs = newline)"
    by (cases cs) (auto simp: starts_with_two)
  then show ?case using 2(2)[OF f b] by auto
qed

subsection \<open>Removing the emphasis markup\<close>

lemma remove_emphasis_not_star:
  "b \<noteq> CHR ''*'' \<Longrightarrow> remove_emphasis (b # cs) = b # remove_emphasis cs"
  by (cases cs) simp_all

lemma remove_emphasis_no_stars: "\<not> occurs_in ''**'' (remove_emphasis s)"
proof (induction s rule: remove_emphasis.induct)
  case (1 a b cs)
  show ?case
  proof (cases "a = CHR ''*'' \<and> b = CHR ''*''")
    case True
    then show ?thesis using 1(1) by simp
  next
    case False
    then have e: "remove_emphasis (a # b # cs) = a # remove_emphasis (b # cs)" by auto
    have "\<not> starts_with ''**'' (a # remove_emphasis (b # cs))"
    proof
      assume "starts_with ''**'' (a # remove_emphasis (b # cs))"
      then obtain r where s: "a = CHR ''*''" "remove_emphasis (b # cs) = CHR ''*'' # r"
        by (auto simp: starts_with_two)
      with False have "b \<noteq> CHR ''*''" by simp
      then show False using s(2) by (simp add: remove_emphasis_not_star)
    qed
    then show ?thesis using 1(2)[OF False] unfolding e by simp
  qed
qed (simp_all add: starts_with_def)

lemma remove_emphasis_id: "\<not> occurs_in ''**'' s \<Longrightarrow> remove_emphasis s = s"
proof (induction s rule: remove_emphasis.induct)
  case (1 a b cs)
  from 1(3) have a: "\<not> (a = CHR ''*'' \<and> b = CHR ''*'')" and b: "\<not> occurs_in ''**'' (b # cs)"
    by (auto simp: starts_with_two)
  then show ?case using 1(2)[OF a b] by auto
qed simp_all

lemma sub_urls_stars: "occurs_in ''**'' (sub_urls s) \<Longrightarrow> occurs_in ''**'' s"
proof (induction s rule: sub_urls.induct)
  case 1
  then show ?case by simp
next
  case (2 c cs)
  show ?case
  proof (cases "url_here (c # cs)")
    case True
    let ?d = "dropWhile (\<lambda>x. \<not> is_space x) cs"
    have e: "sub_urls (c # cs) = ''link'' @ sub_urls ?d" using True by simp
    from 2(3) have "occurs_in ''**'' (sub_urls ?d)"
      unfolding e by (auto simp: starts_with_two)
    then have "occurs_in ''**'' ?d" using 2(1)[OF True] by blast
    then show ?thesis using occurs_in_suffix by auto
  next
    case False
    then have e: "sub_urls (c # cs) = c # sub_urls cs" by simp
    from 2(3) have "starts_with ''**'' (c # sub_urls cs) \<or> occurs_in ''**'' (sub_urls cs)"
      unfolding e by simp
    then show ?thesis
    proof
      assume "starts_with ''**'' (c # sub_urls cs)"
      then obtain r where s: "c = CHR ''*''" "sub_urls cs = CHR ''*'' # r"
        by (auto simp: starts_with_two)
      from sub_urls_cons_not_l[OF s(2)] obtain cs' where "cs = CHR ''*'' # cs'" by auto
      then show ?thesis using s(1) by (simp add: starts_with_two)
    next
      assume "occurs_in ''**'' (sub_urls cs)"
      then show ?thesis using 2(2)[OF False] by simp
    qed
  qed
qed

lemma sub_newlines_stars: "occurs_in ''**'' (sub_newlines s) \<Longrightarrow> occurs_in ''**'' s"
proof (induction s rule: sub_newlines.induct)
  case 1
  then show ?case by simp
next
  case (2 c cs)
  have n: "CHR ''*'' \<noteq> newline" by (simp add: newline_def)
  show ?case
  proof (cases "c = newline \<and> cs \<noteq> [] \<and> hd cs = newline")
    case True
    let ?d = "dropWhile (\<lambda>x. x = newline) cs"
    have e: "sub_newlines (c # cs) = newline # sub_newlines ?d" using True by simp
    from 2(3) have "occurs_in ''**'' (sub_newlines ?d)"
      unfolding e using n by (auto simp: starts_with_two)
    then have "occurs_in ''**'' ?d" using 2(1)[OF True] by blast
    then show ?thesis using occurs_in_suffix by auto
  next
    case False
    then have e: "sub_newlines (c # cs) = c # sub_newlines cs" by auto
    from 2(3) have "starts_with ''**'' (c # sub_newlines cs) \<or> occurs_in ''**'' (sub_newlines cs)"
      unfolding e by simp
    then show ?thesis
    proof
      assume "starts_with ''**'' (c # sub_newlines cs)"
      then obtain r where s: "c = CHR ''*''" "sub_newlines cs = CHR ''*'' # r"
        by (auto simp: starts_with_two)
      from sub_newlines_head[OF s(2)] obtain cs' where "cs = CHR ''*'' # cs'" by auto
      then show ?thesis using s(1) by (simp add: starts_with_two)
    next
      assume "occurs_in ''**'' (sub_newlines cs)"
      then show ?thesis using 2(2)[OF False] by simp
    qed
  qed
qed

lemma optimize_without_stars:
  assumes "\<not> occurs_in ''**'' s"
  shows "optimize_for_speech s = sub_newlines (sub_urls s)"
    and "\<not> has_url (optimize_for_speech s)"
    and "\<not> occurs_in [newline, newline] (optimize_for_speech s)"
    and "optimize_for_speech (optimize_for_speech s) = optimize_for_speech s"
proof -
  let ?t = "sub_newlines (sub_urls s)"
  have st: "\<not> occurs_in ''**'' ?t" using assms sub_urls_stars sub_newlines_stars by blast
  then show o: "optimize_for_speech s = ?t"
    by (simp add: optimize_for_speech_def remove_emphasis_id)
  have u: "\<not> has_url ?t" using sub_urls_no_url sub_newlines_has_url by blast
  have d: "\<not> occurs_in [newline, newline] ?t" by (rule sub_newlines_no_double)
  show "\<not> has_url (optimize_for_speech s)" unfolding o by (rule u)
  show "\<not> occurs_in [newline, newline] (optimize_for_speech s)" unfolding o by (rule d)
  have "optimize_for_speech ?t = ?t"
    unfolding optimize_for_speech_def sub_urls_id[OF u] sub_newlines_id[OF d]
    using st by (rule remove_emphasis_id)
  then show "optimize_for_speech (optimize_for_speech s) = optimize_for_speech s"
    unfolding o .
qed

text \<open>
  C10, as the code has it. The output of \<open>optimize_for_speech\<close> never contains
  \<open>**\<close>. On an input without \<open>**\<close> the function is idempotent, and its output there
  has no match of the URL pattern and no two newlines in a row. So for every input a third
  application gives what the second gave.
\<close>

theorem optimize_for_speech_stable:
  "\<not> occurs_in ''**'' (optimize_for_speech s) \<and>
   (\<not> occurs_in ''**'' s \<longrightarrow>
      optimize_for_speech (optimize_for_speech s) = optimize_for_speech s \<and>
      \<not> has_url (optimize_for_speech s) \<and>
      \<not> occurs_in [newline, newline] (optimize_for_speech s)) \<and>
   optimize_for_speech (optimize_for_speech (optimize_for_speech s))
     = optimize_for_speech (optimize_for_speech s)"
proof -
  have a: "\<And>t. \<not> occurs_in ''**'' (optimize_for_speech t)"
    unfolding optimize_for_speech_def by (rule remove_emphasis_no_stars)
  have c: "optimize_for_speech (optimize_for_speech (optimize_for_speech s))
     = optimize_for_speech (optimize_for_speech s)"
    by (rule optimize_without_stars(4)[OF a])
  show ?thesis using a c optimize_without_stars by blast
qed

text \<open>The theorem on a text with a URL and no emphasis markup.\<close>

theorem optimize_for_speech_stable_witness:
  "\<not> occurs_in ''**'' ''see http://a.b now'' \<and>
   optimize_for_speech ''see http://a.b now'' = ''see link now'' \<and>
   optimize_for_speech (optimize_for_speech ''see http://a.b now'')
     = optimize_for_speech ''see http://a.b now''"
proof -
  have h: "\<not> occurs_in ''**'' ''see http://a.b now''" by (simp add: starts_with_def)
  have v: "optimize_for_speech ''see http://a.b now'' = ''see link now''"
    by (simp add: optimize_for_speech_def url_here_def starts_with_def is_space_def newline_def)
  show ?thesis
    using optimize_for_speech_stable[of "''see http://a.b now''"] h v by simp
qed

text \<open>
  C10 as stated fails: removing \<open>**\<close> happens last and can put a URL together, which
  only a second application replaces; it can also bring two newlines together.
\<close>

theorem optimize_for_speech_not_idempotent:
  "optimize_for_speech ''h**ttp://x'' = ''http://x'' \<and>
   optimize_for_speech (optimize_for_speech ''h**ttp://x'') = ''link'' \<and>
   optimize_for_speech (optimize_for_speech ''h**ttp://x'') \<noteq> optimize_for_speech ''h**ttp://x'' \<and>
   has_url (optimize_for_speech ''h**ttp://x'') \<and>
   optimize_for_speech [newline, CHR ''*'', CHR ''*'', newline] = [newline, newline]"
  by (simp add: optimize_for_speech_def url_here_def starts_with_def is_space_def newline_def)

end
